theory Spec2Isabelle
  imports Complex_Main "HOL-Library.Word"
begin

unbundle bit_operations_syntax

section \<open>Strings\<close>

text \<open>
  A Python \<open>str\<close> is represented by the list of its UTF-8 bytes, so \<open>str.encode()\<close> is the
  identity on the representation. A character is one byte below 0x80, or a lead byte and
  its one to three continuation bytes; \<open>chars\<close> cuts a string into its characters and
  \<open>ord\<close> gives the code point of one character. The separators the program looks for
  (line feed, comma, double quote, dot, colon) are single bytes that occur in no other
  character. A text with a lone surrogate has no UTF-8 encoding and is not represented.
\<close>

definition encode :: "string \<Rightarrow> 8 word list" where
  "encode s = map of_char s"

definition nl :: string where
  "nl = [CHR 0x0A]"

definition continuation_bytes :: "char \<Rightarrow> nat" where
  \<comment> \<open>the number of bytes that follow a first byte in the same character\<close>
  "continuation_bytes b =
     (if (of_char b :: nat) < 0xC0 then 0
      else if (of_char b :: nat) < 0xE0 then 1
      else if (of_char b :: nat) < 0xF0 then 2 else 3)"

definition is_continuation :: "char \<Rightarrow> bool" where
  \<comment> \<open>a byte that continues a character\<close>
  "is_continuation b = (0x80 \<le> (of_char b :: nat) \<and> (of_char b :: nat) < 0xC0)"

fun chars :: "string \<Rightarrow> string list" where
  "chars [] = []"
| "chars (b # bs) =
     (b # take (continuation_bytes b) bs) # chars (drop (continuation_bytes b) bs)"

definition ord :: "string \<Rightarrow> nat" where
  \<comment> \<open>the code point of one character, from its bytes\<close>
  "ord g =
     (case g of
        [a] \<Rightarrow> of_char a
      | [a, b] \<Rightarrow> (of_char a mod 32) * 64 + of_char b mod 64
      | [a, b, c] \<Rightarrow> ((of_char a mod 16) * 64 + of_char b mod 64) * 64 + of_char c mod 64
      | [a, b, c, d] \<Rightarrow>
          (((of_char a mod 8) * 64 + of_char b mod 64) * 64 + of_char c mod 64) * 64 +
          of_char d mod 64
      | _ \<Rightarrow> 0)"

definition str_len :: "string \<Rightarrow> nat" where
  \<comment> \<open>\<open>len(s)\<close>: the number of characters\<close>
  "str_len s = length (chars s)"

definition whitespace :: "nat list" where
  \<comment> \<open>the code points for which \<open>str.isspace\<close> holds: the ASCII controls and the space,
      NEL, the no-break space, and the Unicode space, line and paragraph separators\<close>
  "whitespace =
     [0x09, 0x0A, 0x0B, 0x0C, 0x0D, 0x1C, 0x1D, 0x1E, 0x1F, 0x20, 0x85, 0xA0, 0x1680,
      0x2000, 0x2001, 0x2002, 0x2003, 0x2004, 0x2005, 0x2006, 0x2007, 0x2008, 0x2009, 0x200A,
      0x2028, 0x2029, 0x202F, 0x205F, 0x3000]"

definition isspace :: "string \<Rightarrow> bool" where
  \<comment> \<open>of one character\<close>
  "isspace g = (ord g \<in> set whitespace)"

definition strip :: "string \<Rightarrow> string" where
  \<comment> \<open>\<open>s.strip()\<close>: without the white space characters at both ends\<close>
  "strip s = concat (rev (dropWhile isspace (rev (dropWhile isspace (chars s)))))"

fun split_nl :: "string \<Rightarrow> string list" where
  \<comment> \<open>\<open>s.split('\n')\<close>\<close>
  "split_nl [] = [[]]"
| "split_nl (c # cs) =
     (if c = CHR 0x0A then [] # split_nl cs
      else (case split_nl cs of [] \<Rightarrow> [[c]] | l # ls \<Rightarrow> (c # l) # ls))"

fun file_lines :: "string \<Rightarrow> string list" where
  \<comment> \<open>iterating a text file: each line keeps its line feed\<close>
  "file_lines [] = []"
| "file_lines (c # cs) =
     (if c = CHR 0x0A then [c] # file_lines cs
      else (case file_lines cs of [] \<Rightarrow> [[c]] | l # ls \<Rightarrow> (c # l) # ls))"

text \<open>
  \<open>str.lower\<close> is modelled on the letters A to Z; every other byte is kept. The program
  compares lowered text with ASCII words only (the keywords, \<open>paid\<close>, \<open>partially paid\<close>).
\<close>

definition lower_char :: "char \<Rightarrow> char" where
  "lower_char c =
     (case map_of (zip ''ABCDEFGHIJKLMNOPQRSTUVWXYZ'' ''abcdefghijklmnopqrstuvwxyz'') c of
        Some l \<Rightarrow> l
      | None \<Rightarrow> c)"

definition lower :: "string \<Rightarrow> string" where
  "lower s = map lower_char s"

text \<open>
  The digits of Unicode 14.0, the character database of CPython 3.11. The decimal digits
  come in 66 runs of ten, each from the zero of a script to its nine; \<open>decimal\<close> is the
  value of a decimal digit. \<open>str.isdigit\<close> accepts them and 128 more characters that have
  a digit value and are no decimal digit (superscripts, subscripts, circled and
  parenthesized digits, digits with a full stop or a comma), which \<open>float\<close> does not read.
\<close>

definition decimal_zeros :: "nat list" where
  "decimal_zeros =
     [0x30, 0x660, 0x6F0, 0x7C0, 0x966, 0x9E6, 0xA66, 0xAE6, 0xB66, 0xBE6, 0xC66, 0xCE6, 0xD66,
      0xDE6, 0xE50, 0xED0, 0xF20, 0x1040, 0x1090, 0x17E0, 0x1810, 0x1946, 0x19D0, 0x1A80,
      0x1A90, 0x1B50, 0x1BB0, 0x1C40, 0x1C50, 0xA620, 0xA8D0, 0xA900, 0xA9D0, 0xA9F0, 0xAA50,
      0xABF0, 0xFF10, 0x104A0, 0x10D30, 0x11066, 0x110F0, 0x11136, 0x111D0, 0x112F0, 0x11450,
      0x114D0, 0x11650, 0x116C0, 0x11730, 0x118E0, 0x11950, 0x11C50, 0x11D50, 0x11DA0,
      0x16A60, 0x16AC0, 0x16B50, 0x1D7CE, 0x1D7D8, 0x1D7E2, 0x1D7EC, 0x1D7F6, 0x1E140,
      0x1E2F0, 0x1E950, 0x1FBF0]"

definition decimal :: "string \<Rightarrow> nat option" where
  \<comment> \<open>of one character: its value as a decimal digit\<close>
  "decimal g =
     (case find (\<lambda>z. z \<le> ord g \<and> ord g < z + 10) decimal_zeros of
        Some z \<Rightarrow> Some (ord g - z)
      | None \<Rightarrow> None)"

definition other_digits :: "(nat \<times> nat) list" where
  \<comment> \<open>the ranges of the digits that are no decimal digits, each with its first and last
      code point\<close>
  "other_digits =
     [(0xB2, 0xB3), (0xB9, 0xB9), (0x1369, 0x1371), (0x19DA, 0x19DA), (0x2070, 0x2070),
      (0x2074, 0x2079), (0x2080, 0x2089), (0x2460, 0x2468), (0x2474, 0x247C),
      (0x2488, 0x2490), (0x24EA, 0x24EA), (0x24F5, 0x24FD), (0x24FF, 0x24FF),
      (0x2776, 0x277E), (0x2780, 0x2788), (0x278A, 0x2792), (0x10A40, 0x10A43),
      (0x10E60, 0x10E68), (0x11052, 0x1105A), (0x1F100, 0x1F10A)]"

definition isdigit_char :: "string \<Rightarrow> bool" where
  \<comment> \<open>of one character\<close>
  "isdigit_char g =
     (decimal g \<noteq> None \<or> list_ex (\<lambda>(a, b). a \<le> ord g \<and> ord g \<le> b) other_digits)"

definition isdigit :: "string \<Rightarrow> bool" where
  \<comment> \<open>\<open>str.isdigit\<close>: not empty, and every character a digit\<close>
  "isdigit s = (s \<noteq> [] \<and> list_all isdigit_char (chars s))"

definition replace_dot :: "string \<Rightarrow> string" where
  \<comment> \<open>\<open>s.replace('.', '')\<close>\<close>
  "replace_dot s = filter (\<lambda>c. c \<noteq> CHR ''.'') s"

fun is_prefix :: "string \<Rightarrow> string \<Rightarrow> bool" where
  "is_prefix [] s = True"
| "is_prefix (a # w) [] = False"
| "is_prefix (a # w) (b # s) = (a = b \<and> is_prefix w s)"

fun contains :: "string \<Rightarrow> string \<Rightarrow> bool" where
  \<comment> \<open>\<open>word in s\<close>: \<open>word\<close> occurs in \<open>s\<close> as a contiguous substring\<close>
  "contains w [] = (w = [])"
| "contains w (b # s) = (is_prefix w (b # s) \<or> contains w s)"

definition digit_char :: "nat \<Rightarrow> char" where
  "digit_char n = ''0123456789'' ! (n mod 10)"

fun str_nat :: "nat \<Rightarrow> string" where
  \<comment> \<open>\<open>str(n)\<close> of a natural number\<close>
  "str_nat n = (if n < 10 then [digit_char n] else str_nat (n div 10) @ [digit_char (n mod 10)])"

fun join :: "string \<Rightarrow> string list \<Rightarrow> string" where
  \<comment> \<open>\<open>sep.join(xs)\<close>\<close>
  "join sep [] = []"
| "join sep [x] = x"
| "join sep (x # y # ys) = x @ sep @ join sep (y # ys)"

definition truthy :: "string option \<Rightarrow> bool" where
  \<comment> \<open>the truth value of an optional string: \<open>None\<close> and the empty string are false\<close>
  "truthy v = (case v of None \<Rightarrow> False | Some x \<Rightarrow> x \<noteq> [])"

section \<open>hashlib.sha256\<close>

text \<open>
  \<open>hashlib.sha256(bytes).hexdigest()\<close> is library code; it is modelled by the SHA-256
  algorithm of FIPS 180-4 on 32-bit words: padding to a multiple of 64 bytes, the message
  schedule of 64 words for each block, 64 rounds of the compression function, and the
  eight state words printed as 64 lower-case hexadecimal digits.
\<close>

type_synonym hstate =
  "32 word \<times> 32 word \<times> 32 word \<times> 32 word \<times> 32 word \<times> 32 word \<times> 32 word \<times> 32 word"

definition rotr :: "nat \<Rightarrow> 32 word \<Rightarrow> 32 word" where
  "rotr n x = (drop_bit n x) OR (push_bit (32 - n) x)"

definition sha256_K :: "32 word list" where
  "sha256_K =
   [0x428A2F98, 0x71374491, 0xB5C0FBCF, 0xE9B5DBA5, 0x3956C25B, 0x59F111F1, 0x923F82A4, 0xAB1C5ED5,
    0xD807AA98, 0x12835B01, 0x243185BE, 0x550C7DC3, 0x72BE5D74, 0x80DEB1FE, 0x9BDC06A7, 0xC19BF174,
    0xE49B69C1, 0xEFBE4786, 0x0FC19DC6, 0x240CA1CC, 0x2DE92C6F, 0x4A7484AA, 0x5CB0A9DC, 0x76F988DA,
    0x983E5152, 0xA831C66D, 0xB00327C8, 0xBF597FC7, 0xC6E00BF3, 0xD5A79147, 0x06CA6351, 0x14292967,
    0x27B70A85, 0x2E1B2138, 0x4D2C6DFC, 0x53380D13, 0x650A7354, 0x766A0ABB, 0x81C2C92E, 0x92722C85,
    0xA2BFE8A1, 0xA81A664B, 0xC24B8B70, 0xC76C51A3, 0xD192E819, 0xD6990624, 0xF40E3585, 0x106AA070,
    0x19A4C116, 0x1E376C08, 0x2748774C, 0x34B0BCB5, 0x391C0CB3, 0x4ED8AA4A, 0x5B9CCA4F, 0x682E6FF3,
    0x748F82EE, 0x78A5636F, 0x84C87814, 0x8CC70208, 0x90BEFFFA, 0xA4506CEB, 0xBEF9A3F7, 0xC67178F2]"

definition sha256_H0 :: hstate where
  "sha256_H0 = (0x6A09E667, 0xBB67AE85, 0x3C6EF372, 0xA54FF53A,
                0x510E527F, 0x9B05688C, 0x1F83D9AB, 0x5BE0CD19)"

definition sha256_pad :: "8 word list \<Rightarrow> 8 word list" where
  "sha256_pad bs = (let n = length bs; bits = (of_nat (8 * n) :: 64 word) in
     bs @ [0x80] @ replicate ((119 - n mod 64) mod 64) 0 @
     map (\<lambda>i. ucast (drop_bit (8 * (7 - i)) bits)) [0..<8])"

fun be_words :: "8 word list \<Rightarrow> 32 word list" where
  "be_words [] = []"
| "be_words bs =
     foldl (\<lambda>acc b. push_bit 8 acc OR ucast b) 0 (take 4 bs) # be_words (drop 4 bs)"

fun schedule :: "nat \<Rightarrow> 32 word list \<Rightarrow> 32 word list" where
  "schedule 0 w = w"
| "schedule (Suc k) w =
     (let t = length w;
          s0 = rotr 7 (w ! (t - 15)) XOR rotr 18 (w ! (t - 15)) XOR drop_bit 3 (w ! (t - 15));
          s1 = rotr 17 (w ! (t - 2)) XOR rotr 19 (w ! (t - 2)) XOR drop_bit 10 (w ! (t - 2))
      in schedule k (w @ [w ! (t - 16) + s0 + w ! (t - 7) + s1]))"

definition sha256_round :: "hstate \<Rightarrow> 32 word \<times> 32 word \<Rightarrow> hstate" where
  "sha256_round v kw = (case v of (a, b, c, d, e, f, g, h) \<Rightarrow> (case kw of (k, w) \<Rightarrow>
     (let S1 = rotr 6 e XOR rotr 11 e XOR rotr 25 e;
          ch = (e AND f) XOR (NOT e AND g);
          t1 = h + S1 + ch + k + w;
          S0 = rotr 2 a XOR rotr 13 a XOR rotr 22 a;
          maj = (a AND b) XOR (a AND c) XOR (b AND c);
          t2 = S0 + maj
      in (t1 + t2, a, b, c, d + t1, e, f, g))))"

definition add_state :: "hstate \<Rightarrow> hstate \<Rightarrow> hstate" where
  "add_state u v = (case u of (a, b, c, d, e, f, g, h) \<Rightarrow>
     (case v of (a', b', c', d', e', f', g', h') \<Rightarrow>
       (a + a', b + b', c + c', d + d', e + e', f + f', g + g', h + h')))"

definition compress :: "hstate \<Rightarrow> 32 word list \<Rightarrow> hstate" where
  "compress hs block =
     add_state hs (foldl sha256_round hs (zip sha256_K (schedule 48 block)))"

fun chunks16 :: "32 word list \<Rightarrow> 32 word list list" where
  "chunks16 [] = []"
| "chunks16 ws = take 16 ws # chunks16 (drop 16 ws)"

definition sha256 :: "8 word list \<Rightarrow> hstate" where
  "sha256 bs = foldl compress sha256_H0 (chunks16 (be_words (sha256_pad bs)))"

definition hex_digit :: "nat \<Rightarrow> char" where
  "hex_digit n = ''0123456789abcdef'' ! (n mod 16)"

definition hex32 :: "32 word \<Rightarrow> string" where
  "hex32 w = map (\<lambda>i. hex_digit (unat (drop_bit (4 * (7 - i)) w))) [0..<8]"

definition hexdigest :: "hstate \<Rightarrow> string" where
  "hexdigest hs = (case hs of (a, b, c, d, e, f, g, h) \<Rightarrow>
     concat (map hex32 [a, b, c, d, e, f, g, h]))"

section \<open>The request fingerprint\<close>

text \<open>
  \<^verbatim>\<open>
  def get_cache_key(query: str, csv_data: str) -> str:
      content = f"{query}:{csv_data}"
      return hashlib.sha256(content.encode()).hexdigest()
  \<close>
\<close>

definition get_cache_key :: "string \<Rightarrow> string \<Rightarrow> string" where
  "get_cache_key query csv_data =
     (let content = query @ '':'' @ csv_data in hexdigest (sha256 (encode content)))"

definition sha256_collision :: "string \<Rightarrow> string \<Rightarrow> bool" where
  \<comment> \<open>two different texts with the same SHA-256 digest\<close>
  "sha256_collision x y = (x \<noteq> y \<and> sha256 (encode x) = sha256 (encode y))"

section \<open>Exceptions\<close>

text \<open>
  Every exception the program can raise is a value. \<open>HTTPException\<close> carries its status
  code and its detail; a detail built by an f-string from a caught exception
  (\<open>f"Analysis failed: {str(e)}"\<close>) keeps the prefix and the exception. \<open>RetryError\<close>
  is what the retry decorator raises when its last attempt failed, around the exception
  of that attempt.
\<close>

datatype error =
    ValueError string
  | ZeroDivisionError
  | CsvError
  | TypeError
  | ValidationError
  | ApiError string
  | ModelLoadError
  | HTTPException nat detail
  | RetryError error
and detail =
    Detail string
  | DetailOf string error

section \<open>Invoice records\<close>

record InvoiceData =
  invoice_id :: string
  customer :: string
  amount :: string
  paid_at :: string
  status :: string

section \<open>csv.reader and csv.DictReader\<close>

text \<open>
  The parser of the standard library's \<open>csv.reader\<close> in the default dialect (delimiter
  comma, quote character \<open>"\<close>, doubled quotes inside quoted fields, not strict, no escape
  character, field size limit 131072 characters): a state machine that reads one character
  at a time, and the end of each line as \<open>None\<close>. The special characters are single bytes,
  so the machine is run on the bytes and the field is measured in characters.
\<close>

datatype parser_state =
  START_RECORD | START_FIELD | IN_FIELD | IN_QUOTED_FIELD | QUOTE_IN_QUOTED_FIELD | EAT_CRNL

record reader =
  st :: parser_state
  row_fields :: "string list"
  field :: string

definition parse_reset :: reader where
  "parse_reset = \<lparr>st = START_RECORD, row_fields = [], field = []\<rparr>"

definition parse_save_field :: "reader \<Rightarrow> reader" where
  "parse_save_field r = r\<lparr>row_fields := row_fields r @ [field r], field := []\<rparr>"

definition parse_add_char :: "reader \<Rightarrow> char \<Rightarrow> error + reader" where
  \<comment> \<open>the limit is tested before each character, so at its first byte\<close>
  "parse_add_char r c =
     (if \<not> is_continuation c \<and> str_len (field r) \<ge> 131072 then Inl CsvError
      else Inr (r\<lparr>field := field r @ [c]\<rparr>))"

definition is_crnl :: "char \<Rightarrow> bool" where
  "is_crnl c = (c = CHR 0x0A \<or> c = CHR 0x0D)"

definition end_of_field :: "reader \<Rightarrow> char option \<Rightarrow> reader" where
  \<comment> \<open>a line break or the end of the line closes the field and the record\<close>
  "end_of_field r c =
     (parse_save_field r)\<lparr>st := (if c = None then START_RECORD else EAT_CRNL)\<rparr>"

definition in_start_field :: "reader \<Rightarrow> char option \<Rightarrow> error + reader" where
  "in_start_field r c = (case c of
       None \<Rightarrow> Inr (end_of_field r c)
     | Some x \<Rightarrow>
         if is_crnl x then Inr (end_of_field r c)
         else if x = CHR 0x22 then Inr (r\<lparr>st := IN_QUOTED_FIELD\<rparr>)
         else if x = CHR '','' then Inr ((parse_save_field r)\<lparr>st := START_FIELD\<rparr>)
         else (case parse_add_char r x of
                 Inl e \<Rightarrow> Inl e
               | Inr r' \<Rightarrow> Inr (r'\<lparr>st := IN_FIELD\<rparr>)))"

definition parse_process_char :: "reader \<Rightarrow> char option \<Rightarrow> error + reader" where
  "parse_process_char r c = (case st r of
       START_RECORD \<Rightarrow>
         (case c of
            None \<Rightarrow> Inr r
          | Some x \<Rightarrow> if is_crnl x then Inr (r\<lparr>st := EAT_CRNL\<rparr>) else in_start_field r c)
     | START_FIELD \<Rightarrow> in_start_field r c
     | IN_FIELD \<Rightarrow>
         (case c of
            None \<Rightarrow> Inr (end_of_field r c)
          | Some x \<Rightarrow>
              if is_crnl x then Inr (end_of_field r c)
              else if x = CHR '','' then Inr ((parse_save_field r)\<lparr>st := START_FIELD\<rparr>)
              else parse_add_char r x)
     | IN_QUOTED_FIELD \<Rightarrow>
         (case c of
            None \<Rightarrow> Inr r
          | Some x \<Rightarrow>
              if x = CHR 0x22 then Inr (r\<lparr>st := QUOTE_IN_QUOTED_FIELD\<rparr>)
              else parse_add_char r x)
     | QUOTE_IN_QUOTED_FIELD \<Rightarrow>
         (case c of
            None \<Rightarrow> Inr (end_of_field r c)
          | Some x \<Rightarrow>
              if x = CHR 0x22 then
                (case parse_add_char r x of
                   Inl e \<Rightarrow> Inl e
                 | Inr r' \<Rightarrow> Inr (r'\<lparr>st := IN_QUOTED_FIELD\<rparr>))
              else if x = CHR '','' then Inr ((parse_save_field r)\<lparr>st := START_FIELD\<rparr>)
              else if is_crnl x then Inr (end_of_field r c)
              else (case parse_add_char r x of
                      Inl e \<Rightarrow> Inl e
                    | Inr r' \<Rightarrow> Inr (r'\<lparr>st := IN_FIELD\<rparr>)))
     | EAT_CRNL \<Rightarrow>
         (case c of
            None \<Rightarrow> Inr (r\<lparr>st := START_RECORD\<rparr>)
          | Some x \<Rightarrow> if is_crnl x then Inr r else Inl CsvError))"

fun feed_line :: "reader \<Rightarrow> string \<Rightarrow> error + reader" where
  \<comment> \<open>the characters of one line, then the end of the line\<close>
  "feed_line r [] = parse_process_char r None"
| "feed_line r (c # cs) =
     (case parse_process_char r (Some c) of
        Inl e \<Rightarrow> Inl e
      | Inr r' \<Rightarrow> feed_line r' cs)"

text \<open>
  Iterating the reader: a record is complete when the parser is back in \<open>START_RECORD\<close>
  at the end of a line (a quoted field may run over several lines); when the lines run
  out inside a record, what was read is the last record. The rows are consumed one by
  one, so the result is the rows read before the first parse error, and that error.
\<close>

fun reader_rows :: "reader \<Rightarrow> string list \<Rightarrow> string list list \<times> error option" where
  "reader_rows r [] =
     (if field r \<noteq> [] \<or> st r = IN_QUOTED_FIELD
      then ([row_fields (parse_save_field r)], None) else ([], None))"
| "reader_rows r (l # ls) =
     (case feed_line r l of
        Inl e \<Rightarrow> ([], Some e)
      | Inr r' \<Rightarrow>
          if st r' = START_RECORD
          then (case reader_rows parse_reset ls of (rows, err) \<Rightarrow> (row_fields r' # rows, err))
          else reader_rows r' ls)"

text \<open>
  \<open>csv.DictReader\<close>: the first row gives the field names; blank rows are skipped; a row
  becomes the dictionary \<open>dict(zip(fieldnames, row))\<close>, with the rest of a longer row
  under the key \<open>None\<close> and with the value \<open>None\<close> for the field names a shorter row does
  not reach. A dictionary is the list of its assignments in order (a later one replaces
  an earlier one for the same key), and whether the key \<open>None\<close> is set.
\<close>

record row_dict =
  items :: "(string \<times> string option) list"
  restkey :: bool

definition dict_get :: "row_dict \<Rightarrow> string \<Rightarrow> string option option" where
  \<comment> \<open>\<open>None\<close>: no such key; \<open>Some None\<close>: the value \<open>None\<close>\<close>
  "dict_get d k = map_of (rev (items d)) k"

definition DictReader_next :: "string list \<Rightarrow> string list \<Rightarrow> row_dict" where
  "DictReader_next fieldnames row =
     \<lparr>items = zip fieldnames (map Some row) @
                map (\<lambda>k. (k, None)) (drop (length row) fieldnames),
      restkey = (length fieldnames < length row)\<rparr>"

definition DictReader :: "string list \<Rightarrow> row_dict list \<times> error option" where
  "DictReader csv_lines =
     (case reader_rows parse_reset csv_lines of
        ([], err) \<Rightarrow> ([], err)
      | (fieldnames # rows, err) \<Rightarrow>
          (map (DictReader_next fieldnames) (filter (\<lambda>row. row \<noteq> []) rows), err))"

text \<open>
  Building an \<open>InvoiceData\<close>: pydantic requires each of the five fields to be present and
  a string, and ignores other keys. \<open>InvoiceData(**row)\<close> fails before that with a
  \<open>TypeError\<close> when the dictionary has the key \<open>None\<close> (keywords must be strings).
\<close>

definition InvoiceData_of ::
  "string option \<Rightarrow> string option \<Rightarrow> string option \<Rightarrow> string option \<Rightarrow> string option
     \<Rightarrow> error + InvoiceData" where
  "InvoiceData_of i c a p s =
     (case (i, c, a, p, s) of
        (Some i', Some c', Some a', Some p', Some s') \<Rightarrow>
          Inr \<lparr>invoice_id = i', customer = c', amount = a', paid_at = p', status = s'\<rparr>
      | _ \<Rightarrow> Inl ValidationError)"

definition required :: "row_dict \<Rightarrow> string \<Rightarrow> string option" where
  \<comment> \<open>a keyword argument from \<open>**row\<close>: a missing key and the value \<open>None\<close> both fail validation\<close>
  "required d k = (case dict_get d k of None \<Rightarrow> None | Some v \<Rightarrow> v)"

definition InvoiceData_kwargs :: "row_dict \<Rightarrow> error + InvoiceData" where
  "InvoiceData_kwargs row =
     (if restkey row then Inl TypeError
      else InvoiceData_of (required row ''invoice_id'') (required row ''customer'')
             (required row ''amount'') (required row ''paid_at'') (required row ''status''))"

definition row_get :: "row_dict \<Rightarrow> string \<Rightarrow> string option" where
  \<comment> \<open>\<open>row.get(k, '')\<close>: the default only replaces a missing key\<close>
  "row_get d k = (case dict_get d k of None \<Rightarrow> Some [] | Some v \<Rightarrow> v)"

definition InvoiceData_get :: "row_dict \<Rightarrow> error + InvoiceData" where
  "InvoiceData_get row =
     InvoiceData_of (row_get row ''invoice_id'') (row_get row ''customer'')
       (row_get row ''amount'') (row_get row ''paid_at'') (row_get row ''status'')"

fun collect :: "('a \<Rightarrow> error + 'b) \<Rightarrow> 'a list \<times> error option \<Rightarrow> error + 'b list" where
  \<comment> \<open>a list comprehension over an iterator that may fail: the first failure is raised\<close>
  "collect f ([], None) = Inr []"
| "collect f ([], Some e) = Inl e"
| "collect f (x # xs, err) =
     (case f x of
        Inl e \<Rightarrow> Inl e
      | Inr y \<Rightarrow> (case collect f (xs, err) of Inl e \<Rightarrow> Inl e | Inr ys \<Rightarrow> Inr (y # ys)))"

section \<open>Floating-point numbers\<close>

text \<open>
  A Python \<open>float\<close> is an IEEE 754 binary64 number. A finite number is represented by the
  rational it denotes, and the infinity that a conversion or an addition overflows to by
  \<open>2 ^ 1024\<close>, the first power of two above the largest finite number. \<open>round_double\<close>
  rounds a rational to the nearest number, ties to the even significand: the numbers are
  \<open>2 ^ (e - 52)\<close> apart between \<open>2 ^ e\<close> and \<open>2 ^ (e + 1)\<close>, and \<open>2 ^ (- 1074)\<close> apart below
  \<open>2 ^ (- 1022)\<close>. Every operation gives the rounded exact result. The analyzer forms no
  negative number and no NaN.
\<close>

definition infinity :: rat where
  "infinity = 2 ^ 1024"

definition round_half_even :: "rat \<Rightarrow> int" where
  "round_half_even x =
     (if x - of_int \<lfloor>x\<rfloor> < 1 / 2 then \<lfloor>x\<rfloor>
      else if 1 / 2 < x - of_int \<lfloor>x\<rfloor> then \<lfloor>x\<rfloor> + 1
      else if even \<lfloor>x\<rfloor> then \<lfloor>x\<rfloor> else \<lfloor>x\<rfloor> + 1)"

fun bit_length :: "nat \<Rightarrow> nat" where
  \<comment> \<open>\<open>int.bit_length\<close>\<close>
  "bit_length n = (if n = 0 then 0 else Suc (bit_length (n div 2)))"

definition exponent :: "rat \<Rightarrow> int" where
  \<comment> \<open>of a positive number: the \<open>e\<close> with \<open>2 ^ e \<le> x < 2 ^ (e + 1)\<close>\<close>
  "exponent x =
     (if 1 \<le> x then int (bit_length (nat \<lfloor>x\<rfloor>)) - 1
      else - int (bit_length (nat (\<lceil>1 / x\<rceil> - 1))))"

definition round_double :: "rat \<Rightarrow> rat" where
  "round_double x =
     (if x = 0 then 0
      else (let ulp = 2 powi (max (exponent \<bar>x\<bar>) (- 1022) - 52);
                y = of_int (round_half_even (\<bar>x\<bar> / ulp)) * ulp
            in sgn x * (if infinity \<le> y then infinity else y)))"

definition float_add :: "rat \<Rightarrow> rat \<Rightarrow> rat" where
  \<comment> \<open>\<open>x + y\<close>\<close>
  "float_add x y = (if x = infinity \<or> y = infinity then infinity else round_double (x + y))"

definition float_mul :: "rat \<Rightarrow> rat \<Rightarrow> rat" where
  \<comment> \<open>\<open>x * y\<close>\<close>
  "float_mul x y = (if x = infinity \<or> y = infinity then infinity else round_double (x * y))"

definition float_div :: "rat \<Rightarrow> rat \<Rightarrow> rat" where
  \<comment> \<open>\<open>x / y\<close> for a finite \<open>y\<close> that is not zero\<close>
  "float_div x y = (if x = infinity then infinity else round_double (x / y))"

section \<open>Amounts\<close>

text \<open>
  \<open>inv.amount.replace('.','').isdigit()\<close> guards every \<open>float(inv.amount)\<close>, so \<open>float\<close>
  only reads text made of digits and dots with at least one digit: no sign, no exponent,
  no white space, no underscore. On such text \<open>float\<close> succeeds exactly when every digit
  is a decimal digit and there is at most one dot, and raises \<open>ValueError\<close> otherwise. Its
  result is the double nearest to the decimal value, and the infinity for a value beyond
  the range.
\<close>

definition amount_guard :: "string \<Rightarrow> bool" where
  "amount_guard a = isdigit (replace_dot a)"

definition digits_nat :: "nat list \<Rightarrow> nat" where
  "digits_nat ds = foldl (\<lambda>acc d. 10 * acc + d) 0 ds"

definition float :: "string \<Rightarrow> error + rat" where
  \<comment> \<open>\<open>float(a)\<close> for a text \<open>a\<close> of digits and dots\<close>
  "float a =
     (case those (map decimal (chars (replace_dot a))) of
        Some (d # ds) \<Rightarrow>
          if length (filter (\<lambda>c. c = CHR ''.'') a) \<le> 1
          then Inr (round_double (of_nat (digits_nat (d # ds)) /
                      10 ^ str_len (drop 1 (dropWhile (\<lambda>c. c \<noteq> CHR ''.'') a))))
          else Inl (ValueError a)
      | _ \<Rightarrow> Inl (ValueError a))"

fun sum_amounts :: "rat \<Rightarrow> InvoiceData list \<Rightarrow> error + rat" where
  \<comment> \<open>\<open>sum(float(inv.amount) for inv in invoices if inv.amount.replace('.','').isdigit())\<close>,
      as CPython adds up to version 3.11: one rounded addition for each item, from the
      left (later versions carry a correction term along)\<close>
  "sum_amounts acc [] = Inr acc"
| "sum_amounts acc (invoice # invoices) =
     (if amount_guard (amount invoice)
      then (case float (amount invoice) of
              Inl e \<Rightarrow> Inl e
            | Inr x \<Rightarrow> sum_amounts (float_add acc x) invoices)
      else sum_amounts acc invoices)"

section \<open>The heuristic analyzer\<close>

text \<open>
  The analysis text is an f-string template filled with numbers. It is represented by the
  template chosen and the values put into it, in the order of the template; the
  formatting of the numbers (\<open>:,.2f\<close>, \<open>:.1f\<close>) is not modelled. The text a provider
  returns is \<open>LLMText\<close>.
\<close>

datatype analysis_text =
    LLMText string
  | TotalRevenueAnalysis nat rat nat nat rat
  | CustomerAnalysis nat "(string \<times> rat) list"
  | PaymentStatusAnalysis nat nat rat rat
  | InvoiceCountAnalysis nat nat nat nat rat
  | InvoiceOverview nat rat nat nat nat rat

definition true_div :: "rat \<Rightarrow> nat \<Rightarrow> error + rat" where
  \<comment> \<open>\<open>x / n\<close> for a float \<open>x\<close> and an integer \<open>n\<close>: division by zero raises; \<open>n\<close> is
      converted to a float first\<close>
  "true_div x n =
     (if n = 0 then Inl ZeroDivisionError
      else Inr (float_div x (round_double (of_nat n))))"

definition int_true_div :: "nat \<Rightarrow> nat \<Rightarrow> error + rat" where
  \<comment> \<open>\<open>m / n\<close> for two integers: division by zero raises; the result is the rounded
      quotient\<close>
  "int_true_div m n =
     (if n = 0 then Inl ZeroDivisionError else Inr (round_double (of_nat m / of_nat n)))"

definition dict_add :: "(string \<times> rat) list \<Rightarrow> string \<Rightarrow> rat \<Rightarrow> (string \<times> rat) list" where
  \<comment> \<open>\<open>d[k] += x\<close> for a key of the dictionary: the key keeps its position\<close>
  "dict_add d k x = map (\<lambda>(k', v). if k' = k then (k', float_add v x) else (k', v)) d"

fun top_customers_loop ::
  "(string \<times> rat) list \<Rightarrow> InvoiceData list \<Rightarrow> error + (string \<times> rat) list" where
  \<comment> \<open>lines 123 to 127; the dictionary is the list of its items in insertion order\<close>
  "top_customers_loop top_customers [] = Inr top_customers"
| "top_customers_loop top_customers (invoice # invoices) =
     (let d = (if map_of top_customers (customer invoice) = None
               then top_customers @ [(customer invoice, 0)] else top_customers)
      in if amount_guard (amount invoice)
         then (case float (amount invoice) of
                 Inl e \<Rightarrow> Inl e
               | Inr x \<Rightarrow> top_customers_loop (dict_add d (customer invoice) x) invoices)
         else top_customers_loop d invoices)"

definition sorted_reverse :: "('a \<Rightarrow> rat) \<Rightarrow> 'a list \<Rightarrow> 'a list" where
  \<comment> \<open>\<open>sorted(xs, key=key, reverse=True)\<close>: Python reverses the list, sorts it with its
      stable sort and reverses the result, so equal keys keep their order\<close>
  "sorted_reverse key xs = rev (sort_key key (rev xs))"

definition any_word :: "string list \<Rightarrow> string \<Rightarrow> bool" where
  \<comment> \<open>\<open>any(word in query_lower for word in words)\<close>\<close>
  "any_word words query_lower = list_ex (\<lambda>word. contains word query_lower) words"

definition heuristic_analysis :: "string \<Rightarrow> InvoiceData list \<Rightarrow> error + analysis_text" where
  \<comment> \<open>lines 106 to 143 of \<open>analyze_with_transformers\<close>\<close>
  "heuristic_analysis query invoices =
     (let total_invoices = length invoices in
      case sum_amounts 0 invoices of
        Inl e \<Rightarrow> Inl e
      | Inr total_amount \<Rightarrow>
     (let paid_count = length (filter (\<lambda>invoice. lower (status invoice) = ''paid'') invoices);
          partial_count = length (filter (\<lambda>invoice. lower (status invoice) = ''partially paid'') invoices);
          customers = remdups (map customer invoices);
          query_lower = lower query
      in if any_word [''total'', ''revenue'', ''amount'', ''sum''] query_lower then
           (case true_div total_amount total_invoices of
              Inl e \<Rightarrow> Inl e
            | Inr average \<Rightarrow>
                Inr (TotalRevenueAnalysis total_invoices total_amount paid_count partial_count
                       average))
         else if any_word [''customer'', ''client'', ''who''] query_lower then
           (case top_customers_loop [] invoices of
              Inl e \<Rightarrow> Inl e
            | Inr top_customers \<Rightarrow>
                Inr (CustomerAnalysis (length customers)
                       (take 5 (sorted_reverse snd top_customers))))
         else if any_word [''status'', ''paid'', ''payment''] query_lower then
           (case int_true_div (paid_count + partial_count) total_invoices of
              Inl e \<Rightarrow> Inl e
            | Inr rate \<Rightarrow>
                Inr (PaymentStatusAnalysis paid_count partial_count (float_mul rate 100)
                       total_amount))
         else if any_word [''count'', ''how many'', ''number''] query_lower then
           (case int_true_div total_invoices (length customers) of
              Inl e \<Rightarrow> Inl e
            | Inr average \<Rightarrow>
                Inr (InvoiceCountAnalysis total_invoices (length customers) paid_count
                       partial_count average))
         else
           (case true_div total_amount total_invoices of
              Inl e \<Rightarrow> Inl e
            | Inr average \<Rightarrow>
                Inr (InvoiceOverview total_invoices total_amount (length customers) paid_count
                       partial_count average))))"

section \<open>The process: configuration, external services and globals\<close>

text \<open>
  What the program reads from outside: the three availability flags set at import, the
  two credentials in the environment, the text of \<open>invoices.csv\<close> (\<open>None\<close> when there is
  no such file), whether loading the sentence-transformer model succeeds, and the two
  provider services. A provider service gives the outcome of a call from the number of
  calls made to it before and the prompt: the text of the answer, or the exception raised
  inside the \<open>try\<close> block.
\<close>

record env =
  CLAUDE_AVAILABLE :: bool
  OPENAI_AVAILABLE :: bool
  TRANSFORMERS_AVAILABLE :: bool
  ANTHROPIC_API_KEY :: "string option"
  OPENAI_API_KEY :: "string option"
  invoices_csv :: "string option"
  SentenceTransformer :: bool
  anthropic_messages_create :: "nat \<Rightarrow> string \<Rightarrow> error + string"
  openai_chat_completions_create :: "nat \<Rightarrow> string \<Rightarrow> error + string"

text \<open>
  The globals \<open>cache\<close> and \<open>_model\<close> (only whether it is loaded), and a record of the
  effects: the calls made to each provider, the runs of the heuristic analyzer, and the
  seconds slept between retries.
\<close>

record AnalysisResponse =
  analysis :: analysis_text
  invoices_analyzed :: nat
  query_hash :: string

record state =
  cache :: "string \<rightharpoonup> AnalysisResponse"
  model_loaded :: bool
  claude_calls :: nat
  openai_calls :: nat
  heuristic_runs :: nat
  sleeps :: "nat list"

definition get_transformer_model :: "env \<Rightarrow> state \<Rightarrow> (error + bool) \<times> state" where
  \<comment> \<open>the result is whether \<open>_model\<close> is not \<open>None\<close>\<close>
  "get_transformer_model e s =
     (if \<not> model_loaded s \<and> TRANSFORMERS_AVAILABLE e
      then (if SentenceTransformer e then (Inr True, s\<lparr>model_loaded := True\<rparr>)
            else (Inl ModelLoadError, s))
      else (Inr (model_loaded s), s))"

definition analyze_with_transformers ::
  "env \<Rightarrow> state \<Rightarrow> string \<Rightarrow> InvoiceData list \<Rightarrow> (error + analysis_text) \<times> state" where
  "analyze_with_transformers e s0 query invoices =
     (let s = s0\<lparr>heuristic_runs := Suc (heuristic_runs s0)\<rparr> in
      if \<not> TRANSFORMERS_AVAILABLE e
      then (Inl (HTTPException 500 (Detail ''sentence-transformers not available'')), s)
      else (case get_transformer_model e s of
              (Inl err, s') \<Rightarrow> (Inl err, s')
            | (Inr model, s') \<Rightarrow>
                if \<not> model
                then (Inl (HTTPException 500 (Detail ''Failed to load transformer model'')), s')
                else (heuristic_analysis query invoices, s')))"

section \<open>The dispatcher\<close>

text \<open>
  \<open>call_llm_attempt\<close> is the body of \<open>call_llm\<close>, one attempt of the decorated function;
  \<open>openai_fallback\<close> is its second half, from the comment \<open>Fall back to OpenAI if
  available\<close> on.
\<close>

definition openai_fallback :: "env \<Rightarrow> state \<Rightarrow> string \<Rightarrow> (error + string) \<times> state" where
  "openai_fallback e s prompt =
     (if OPENAI_AVAILABLE e \<and> truthy (OPENAI_API_KEY e) then
        (case openai_chat_completions_create e (openai_calls s) prompt of
           Inr content \<Rightarrow> (Inr content, s\<lparr>openai_calls := Suc (openai_calls s)\<rparr>)
         | Inl err \<Rightarrow>
             (Inl (HTTPException 500 (DetailOf ''OpenAI API error: '' err)),
              s\<lparr>openai_calls := Suc (openai_calls s)\<rparr>))
      else
        (let available_apis =
               (if CLAUDE_AVAILABLE e then [''Claude (set ANTHROPIC_API_KEY)''] else []) @
               (if OPENAI_AVAILABLE e then [''OpenAI (set OPENAI_API_KEY)''] else []);
             error_msg = ''No LLM API available. Install and configure: '' @
                         join '', '' available_apis
         in (Inl (HTTPException 500 (Detail error_msg)), s)))"

definition call_llm_attempt :: "env \<Rightarrow> state \<Rightarrow> string \<Rightarrow> (error + string) \<times> state" where
  "call_llm_attempt e s prompt =
     (let claude_key = ANTHROPIC_API_KEY e; openai_key = OPENAI_API_KEY e in
      if CLAUDE_AVAILABLE e \<and> truthy claude_key then
        (case anthropic_messages_create e (claude_calls s) prompt of
           Inr content \<Rightarrow> (Inr content, s\<lparr>claude_calls := Suc (claude_calls s)\<rparr>)
         | Inl err \<Rightarrow>
             if \<not> truthy openai_key
             then (Inl (HTTPException 500 (DetailOf ''Claude API error: '' err)),
                   s\<lparr>claude_calls := Suc (claude_calls s)\<rparr>)
             else openai_fallback e (s\<lparr>claude_calls := Suc (claude_calls s)\<rparr>) prompt)
      else openai_fallback e s prompt)"

text \<open>
  The decorator \<open>@retry(stop=stop_after_attempt(3), wait=wait_exponential(multiplier=1,
  min=4, max=10), retry=retry_if_exception_type(Exception))\<close> of the tenacity library:
  an attempt that raises is followed by a sleep and another attempt, until the third
  attempt; when that one raises too, \<open>RetryError\<close> is raised.
\<close>

definition wait_exponential :: "nat \<Rightarrow> nat" where
  \<comment> \<open>the seconds to wait after the attempt of this number\<close>
  "wait_exponential attempt_number = max 4 (min (2 ^ (attempt_number - 1)) 10)"

function retry ::
  "(state \<Rightarrow> (error + 'a) \<times> state) \<Rightarrow> nat \<Rightarrow> state \<Rightarrow> (error + 'a) \<times> state" where
  "retry f attempt_number s =
     (case f s of
        (Inr v, s') \<Rightarrow> (Inr v, s')
      | (Inl err, s') \<Rightarrow>
          if attempt_number \<ge> 3 then (Inl (RetryError err), s')
          else retry f (Suc attempt_number)
                 (s'\<lparr>sleeps := sleeps s' @ [wait_exponential attempt_number]\<rparr>))"
  by pat_completeness auto
termination
  by (relation "measure (\<lambda>(f, attempt_number, s). 3 - attempt_number)") auto

definition call_llm :: "env \<Rightarrow> state \<Rightarrow> string \<Rightarrow> (error + string) \<times> state" where
  "call_llm e s prompt = retry (\<lambda>s'. call_llm_attempt e s' prompt) 1 s"

section \<open>The endpoints\<close>

record AnalysisRequest =
  query :: string
  csv_data :: "string option"

definition load_csv_data :: "env \<Rightarrow> error + InvoiceData list" where
  "load_csv_data e =
     (case invoices_csv e of
        None \<Rightarrow> Inr []
      | Some text \<Rightarrow> collect InvoiceData_get (DictReader (file_lines text)))"

text \<open>
  Lines 213 to 234 of \<open>analyze_invoices\<close>, which \<open>analyze_invoices_free\<close> repeats as its
  lines 298 to 316: the records and the dataset text of a request.
\<close>

definition load_request :: "env \<Rightarrow> AnalysisRequest \<Rightarrow> error + InvoiceData list \<times> string" where
  "load_request e request =
     (if truthy (csv_data request) then
        (let csv_lines = split_nl (strip (the (csv_data request))) in
         if length csv_lines < 2
         then Inl (HTTPException 400 (Detail ''Invalid CSV data format''))
         else (case collect InvoiceData_kwargs (DictReader csv_lines) of
                 Inl err \<Rightarrow> Inl err
               | Inr invoices \<Rightarrow> Inr (invoices, the (csv_data request))))
      else
        (case load_csv_data e of
           Inl err \<Rightarrow> Inl err
         | Inr invoices \<Rightarrow>
             if invoices = []
             then Inl (HTTPException 404
                    (Detail ''No invoice data found. Run the scraper first or provide CSV data.''))
             else Inr (invoices, (case invoices_csv e of Some text \<Rightarrow> text | None \<Rightarrow> []))))"

definition invoice_line :: "nat \<Rightarrow> InvoiceData \<Rightarrow> string" where
  "invoice_line i invoice =
     str_nat (i + 1) @ ''. Invoice '' @ invoice_id invoice @ '': '' @ customer invoice @
     '', $'' @ amount invoice @ '', '' @ status invoice @ '', Paid: '' @ paid_at invoice @ nl"

definition build_prompt :: "string \<Rightarrow> InvoiceData list \<Rightarrow> string" where
  \<comment> \<open>lines 244 to 261\<close>
  "build_prompt query_text invoices =
     (let invoice_summary =
            ''Invoice Data Summary:'' @ nl @
            ''Total Invoices: '' @ str_nat (length invoices) @ nl @ nl @
            concat (map (\<lambda>(i, invoice). invoice_line i invoice)
                      (zip [0..<10] (take 10 invoices))) @
            (if length invoices > 10
             then ''... and '' @ str_nat (length invoices - 10) @ '' more invoices'' @ nl
             else [])
      in nl @ ''    '' @ invoice_summary @ nl @
         ''    '' @ nl @
         ''    User Query: '' @ query_text @ nl @
         ''    '' @ nl @
         ''    Please analyze the invoice data and provide a concise response to the user'' @
         [CHR 0x27] @ ''s query. '' @ nl @
         ''    Focus on key insights, patterns, and specific numbers where relevant.'' @ nl @
         ''    '')"

definition analyze_invoices ::
  "env \<Rightarrow> state \<Rightarrow> AnalysisRequest \<Rightarrow> (error + AnalysisResponse) \<times> state" where
  "analyze_invoices e s request =
     (case load_request e request of
        Inl err \<Rightarrow> (Inl err, s)
      | Inr (invoices, csv_content) \<Rightarrow>
          (let cache_key = get_cache_key (query request) csv_content in
           case cache s cache_key of
             Some response \<Rightarrow> (Inr response, s)
           | None \<Rightarrow>
               (let prompt = build_prompt (query request) invoices in
                case call_llm e s prompt of
                  (Inr analysis_result, s') \<Rightarrow>
                    (let response = \<lparr>analysis = LLMText analysis_result,
                                     invoices_analyzed = length invoices,
                                     query_hash = take 8 cache_key\<rparr>
                     in (Inr response, s'\<lparr>cache := (cache s')(cache_key \<mapsto> response)\<rparr>))
                | (Inl err, s') \<Rightarrow>
                    (Inl (HTTPException 500 (DetailOf ''Analysis failed: '' err)), s'))))"

definition analyze_invoices_free ::
  "env \<Rightarrow> state \<Rightarrow> AnalysisRequest \<Rightarrow> (error + AnalysisResponse) \<times> state" where
  "analyze_invoices_free e s request =
     (case load_request e request of
        Inl err \<Rightarrow> (Inl err, s)
      | Inr (invoices, csv_content) \<Rightarrow>
          (let cache_key = ''free_'' @ get_cache_key (query request) csv_content in
           case cache s cache_key of
             Some response \<Rightarrow> (Inr response, s)
           | None \<Rightarrow>
               (case analyze_with_transformers e s (query request) invoices of
                  (Inr analysis_result, s') \<Rightarrow>
                    (let response = \<lparr>analysis = analysis_result,
                                     invoices_analyzed = length invoices,
                                     query_hash = take 8 cache_key\<rparr>
                     in (Inr response, s'\<lparr>cache := (cache s')(cache_key \<mapsto> response)\<rparr>))
                | (Inl err, s') \<Rightarrow>
                    (Inl (HTTPException 500 (DetailOf ''Free analysis failed: '' err)), s'))))"

definition health_check :: "state \<Rightarrow> nat" where
  \<comment> \<open>the \<open>cache_size\<close> of the health endpoint\<close>
  "health_check s = card (dom (cache s))"


section \<open>The classification of the specification\<close>

text \<open>
  The classification of section 4.2 of the specification, in its words: the categories in
  their priority order, each with its keyword set; a keyword matches a query when it
  occurs in it at some position, letters compared without regard to case; the first
  category with a matching keyword wins, and a query that matches none is a general
  overview. \<open>template_category\<close> names the category of each analysis template, and
  \<open>amounts_parse\<close> says that every amount that passes the guard has at most one dot and
  no digit that is not a decimal digit.
\<close>

datatype category = RevenueSummary | CustomerRanking | StatusSummary | CountSummary | GeneralOverview

definition occurs_ci :: "string \<Rightarrow> string \<Rightarrow> bool" where
  "occurs_ci keyword q =
     list_ex (\<lambda>i. i + length keyword \<le> length q \<and>
                  map lower_char (take (length keyword) (drop i q)) = map lower_char keyword)
       [0..<Suc (length q)]"

definition category_keywords :: "(category \<times> string list) list" where
  "category_keywords =
     [(RevenueSummary, [''revenue'', ''total'', ''amount'', ''sum'']),
      (CustomerRanking, [''customer'', ''client'', ''who'']),
      (StatusSummary, [''status'', ''paid'', ''payment'']),
      (CountSummary, [''count'', ''how many'', ''number''])]"

definition spec_classify :: "string \<Rightarrow> category" where
  "spec_classify q =
     (case find (\<lambda>(c, keywords). list_ex (\<lambda>keyword. occurs_ci keyword q) keywords)
             category_keywords of
        Some (c, keywords) \<Rightarrow> c
      | None \<Rightarrow> GeneralOverview)"

fun template_category :: "analysis_text \<Rightarrow> category option" where
  "template_category (LLMText t) = None"
| "template_category (TotalRevenueAnalysis n t p pp a) = Some RevenueSummary"
| "template_category (CustomerAnalysis n r) = Some CustomerRanking"
| "template_category (PaymentStatusAnalysis p pp r t) = Some StatusSummary"
| "template_category (InvoiceCountAnalysis n c p pp a) = Some CountSummary"
| "template_category (InvoiceOverview n t c p pp a) = Some GeneralOverview"

definition amounts_parse :: "InvoiceData list \<Rightarrow> bool" where
  "amounts_parse invoices =
     list_all (\<lambda>invoice. amount_guard (amount invoice) \<longrightarrow>
                 length (filter (\<lambda>c. c = CHR ''.'') (amount invoice)) \<le> 1 \<and>
                 list_all (\<lambda>g. decimal g \<noteq> None) (chars (replace_dot (amount invoice))))
       invoices"

section \<open>What the records add to the sums\<close>

text \<open>
  What a record adds to a sum when its amount parses: the value of the amount when the
  amount passes the guard, and nothing otherwise. \<open>parsed\<close> lists the values of the
  records that pass the guard, and \<open>float_sum\<close> adds a list of values to a start value,
  from the left, rounding after each addition. \<open>first_seen\<close> lists the distinct customers
  in the order of their first record, and \<open>customer_sums\<close> gives each of them the sum of
  the values of its records. \<open>grown\<close> is the dictionary of the customer loop after a list
  of records, from the dictionary before it.
\<close>

definition contribution :: "InvoiceData \<Rightarrow> rat" where
  "contribution invoice =
     (if amount_guard (amount invoice)
      then (case float (amount invoice) of Inr x \<Rightarrow> x | Inl err \<Rightarrow> 0) else 0)"

definition parsed :: "InvoiceData list \<Rightarrow> rat list" where
  "parsed invoices =
     map contribution (filter (\<lambda>invoice. amount_guard (amount invoice)) invoices)"

definition float_sum :: "rat \<Rightarrow> rat list \<Rightarrow> rat" where
  "float_sum start xs = foldl float_add start xs"

definition records_of :: "string \<Rightarrow> InvoiceData list \<Rightarrow> InvoiceData list" where
  "records_of c invoices = filter (\<lambda>invoice. customer invoice = c) invoices"

fun first_seen :: "string list \<Rightarrow> string list" where
  "first_seen [] = []"
| "first_seen (c # cs) = c # filter (\<lambda>c'. c' \<noteq> c) (first_seen cs)"

definition sum_of :: "string \<Rightarrow> InvoiceData list \<Rightarrow> rat" where
  "sum_of c invoices = float_sum 0 (parsed (records_of c invoices))"

definition customer_sums :: "InvoiceData list \<Rightarrow> (string \<times> rat) list" where
  "customer_sums invoices =
     map (\<lambda>c. (c, sum_of c invoices)) (first_seen (map customer invoices))"

definition grown :: "(string \<times> rat) list \<Rightarrow> InvoiceData list \<Rightarrow> (string \<times> rat) list" where
  "grown d invoices =
     map (\<lambda>(c, v). (c, float_sum v (parsed (records_of c invoices)))) d @
     map (\<lambda>c. (c, sum_of c invoices))
       (filter (\<lambda>c. c \<notin> fst ` set d) (first_seen (map customer invoices)))"

section \<open>Example configurations, datasets and requests\<close>

definition state_init :: state where
  \<comment> \<open>a fresh process: empty cache, no model loaded, nothing called yet\<close>
  "state_init = \<lparr>cache = Map.empty, model_loaded = False, claude_calls = 0, openai_calls = 0,
                  heuristic_runs = 0, sleeps = []\<rparr>"

definition env_fallback :: env where
  \<comment> \<open>both providers configured; every call to Claude raises, OpenAI answers\<close>
  "env_fallback =
     \<lparr>CLAUDE_AVAILABLE = True, OPENAI_AVAILABLE = True, TRANSFORMERS_AVAILABLE = True,
      ANTHROPIC_API_KEY = Some ''sk-ant'', OPENAI_API_KEY = Some ''sk-oai'',
      invoices_csv = None, SentenceTransformer = True,
      anthropic_messages_create = (\<lambda>n prompt. Inl (ApiError ''overloaded'')),
      openai_chat_completions_create = (\<lambda>n prompt. Inr ''Two invoices, 150.00 in total.'')\<rparr>"

definition env_no_keys :: env where
  \<comment> \<open>all libraries installed, no credential set, no file \<open>invoices.csv\<close>\<close>
  "env_no_keys =
     \<lparr>CLAUDE_AVAILABLE = True, OPENAI_AVAILABLE = True, TRANSFORMERS_AVAILABLE = True,
      ANTHROPIC_API_KEY = None, OPENAI_API_KEY = None,
      invoices_csv = None, SentenceTransformer = True,
      anthropic_messages_create = (\<lambda>n prompt. Inl (ApiError ''unauthorized'')),
      openai_chat_completions_create = (\<lambda>n prompt. Inl (ApiError ''unauthorized''))\<rparr>"

definition env_failing :: env where
  \<comment> \<open>both providers configured; every call to either raises\<close>
  "env_failing =
     \<lparr>CLAUDE_AVAILABLE = True, OPENAI_AVAILABLE = True, TRANSFORMERS_AVAILABLE = True,
      ANTHROPIC_API_KEY = Some ''sk-ant'', OPENAI_API_KEY = Some ''sk-oai'',
      invoices_csv = None, SentenceTransformer = True,
      anthropic_messages_create = (\<lambda>n prompt. Inl (ApiError ''overloaded'')),
      openai_chat_completions_create = (\<lambda>n prompt. Inl (ApiError ''rate limit''))\<rparr>"

definition env_no_libraries :: env where
  \<comment> \<open>both credentials set, neither provider library installed\<close>
  "env_no_libraries =
     \<lparr>CLAUDE_AVAILABLE = False, OPENAI_AVAILABLE = False, TRANSFORMERS_AVAILABLE = False,
      ANTHROPIC_API_KEY = Some ''sk-ant'', OPENAI_API_KEY = Some ''sk-oai'',
      invoices_csv = None, SentenceTransformer = False,
      anthropic_messages_create = (\<lambda>n prompt. Inl (ApiError ''no client'')),
      openai_chat_completions_create = (\<lambda>n prompt. Inl (ApiError ''no client''))\<rparr>"

definition csv_two :: string where
  \<comment> \<open>the dataset of the revenue scenario: A paid 100, B partially paid 50\<close>
  "csv_two = ''invoice_id,customer,amount,paid_at,status'' @ nl @
             ''1,A,100,2024-01-01,Paid'' @ nl @
             ''2,B,50,2024-01-02,Partially Paid''"

definition invoices_two :: "InvoiceData list" where
  "invoices_two =
     [\<lparr>invoice_id = ''1'', customer = ''A'', amount = ''100'', paid_at = ''2024-01-01'',
       status = ''Paid''\<rparr>,
      \<lparr>invoice_id = ''2'', customer = ''B'', amount = ''50'', paid_at = ''2024-01-02'',
       status = ''Partially Paid''\<rparr>]"

definition csv_quoted :: string where
  \<comment> \<open>two lines that are one quoted header field: \<open>"a\<close> and \<open>b"\<close>\<close>
  "csv_quoted = [CHR 0x22] @ ''a'' @ nl @ ''b'' @ [CHR 0x22]"

definition csv_no_break_space :: string where
  \<comment> \<open>a header line and a line that holds one no-break space, U+00A0\<close>
  "csv_no_break_space = ''invoice_id'' @ nl @ [CHR 0xC2, CHR 0xA0]"

definition invoices_tenths :: "InvoiceData list" where
  \<comment> \<open>B has one record of 0.3, then A has records of 0.1 and of 0.2\<close>
  "invoices_tenths =
     [\<lparr>invoice_id = ''1'', customer = ''B'', amount = ''0.3'', paid_at = ''2024-01-01'',
       status = ''Paid''\<rparr>,
      \<lparr>invoice_id = ''2'', customer = ''A'', amount = ''0.1'', paid_at = ''2024-01-02'',
       status = ''Paid''\<rparr>,
      \<lparr>invoice_id = ''3'', customer = ''A'', amount = ''0.2'', paid_at = ''2024-01-03'',
       status = ''Paid''\<rparr>]"

definition csv_dots :: string where
  \<comment> \<open>one record, whose amount has two dots\<close>
  "csv_dots = ''invoice_id,customer,amount,paid_at,status'' @ nl @
              ''1,A,1.2.3,2024-01-01,Paid''"

definition invoices_dots :: "InvoiceData list" where
  \<comment> \<open>the record of \<open>csv_dots\<close>\<close>
  "invoices_dots =
     [\<lparr>invoice_id = ''1'', customer = ''A'', amount = ''1.2.3'', paid_at = ''2024-01-01'',
       status = ''Paid''\<rparr>]"

section \<open>Properties of the fingerprint\<close>

lemma length_hex32: "length (hex32 w) = 8"
  by (simp add: hex32_def)

lemma length_hexdigest: "length (hexdigest hs) = 64"
  by (simp add: hexdigest_def length_hex32 split: prod.splits)

lemma length_get_cache_key: "length (get_cache_key q d) = 64"
  by (simp add: get_cache_key_def Let_def length_hexdigest)

lemma joined_text_no_colon:
  assumes "CHR '':'' \<notin> set q" and "CHR '':'' \<notin> set q'"
    and "q @ '':'' @ d = q' @ '':'' @ d'"
  shows "q = q' \<and> d = d'"
proof -
  have tw: "takeWhile (\<lambda>c. c \<noteq> CHR '':'') (p @ CHR '':'' # r) = p"
    if "CHR '':'' \<notin> set p" for p r :: string
    using that by (induction p) auto
  from assms(3) have "takeWhile (\<lambda>c. c \<noteq> CHR '':'') (q @ CHR '':'' # d) =
      takeWhile (\<lambda>c. c \<noteq> CHR '':'') (q' @ CHR '':'' # d')"
    by simp
  with assms(1,2) have "q = q'"
    by (simp add: tw)
  with assms(3) show ?thesis
    by simp
qed

lemma hex_digit_inj: "hex_digit n = hex_digit m \<Longrightarrow> n mod 16 = m mod 16"
proof -
  assume h: "hex_digit n = hex_digit m"
  have d: "distinct ''0123456789abcdef''" by simp
  have l: "length ''0123456789abcdef'' = 16" by simp
  have "n mod 16 < length ''0123456789abcdef''" "m mod 16 < length ''0123456789abcdef''"
    by simp_all
  with h d show ?thesis
    unfolding hex_digit_def by (simp only: nth_eq_iff_index_eq)
qed

lemma hex32_inj:
  assumes "hex32 w = hex32 w'"
  shows "w = w'"
proof (rule bit_word_eqI)
  fix n assume n: "n < LENGTH(32)"
  define i where "i = 7 - n div 4"
  have i: "i < 8" "4 * (7 - i) = 4 * (n div 4)"
    using n by (simp_all add: i_def)
  from assms have "hex32 w ! i = hex32 w' ! i"
    by simp
  moreover have "hex32 v ! i = hex_digit (unat (drop_bit (4 * (n div 4)) v))" for v
    unfolding hex32_def using i by (simp only: nth_map length_upt nth_upt) simp
  ultimately have "hex_digit (unat (drop_bit (4 * (n div 4)) w)) =
      hex_digit (unat (drop_bit (4 * (n div 4)) w'))"
    by simp
  then have "unat (drop_bit (4 * (n div 4)) w) mod 16 = unat (drop_bit (4 * (n div 4)) w') mod 16"
    by (rule hex_digit_inj)
  then have "take_bit 4 (unat (drop_bit (4 * (n div 4)) w)) =
      take_bit 4 (unat (drop_bit (4 * (n div 4)) w'))"
    by (simp add: take_bit_eq_mod)
  then have "bit (take_bit 4 (unat (drop_bit (4 * (n div 4)) w))) (n mod 4) =
      bit (take_bit 4 (unat (drop_bit (4 * (n div 4)) w'))) (n mod 4)"
    by simp
  then have "bit (drop_bit (4 * (n div 4)) w) (n mod 4) = bit (drop_bit (4 * (n div 4)) w') (n mod 4)"
    by (simp add: bit_take_bit_iff bit_unsigned_iff)
  then show "bit w n = bit w' n"
    by (simp add: bit_drop_bit_eq)
qed

lemma hexdigest_inj:
  assumes "hexdigest u = hexdigest v"
  shows "u = v"
proof -
  obtain a b c d e f g h where u: "u = (a, b, c, d, e, f, g, h)" by (cases u) auto
  obtain a' b' c' d' e' f' g' h' where v: "v = (a', b', c', d', e', f', g', h')"
    by (cases v) auto
  from assms have "hex32 a @ hex32 b @ hex32 c @ hex32 d @ hex32 e @ hex32 f @ hex32 g @ hex32 h =
      hex32 a' @ hex32 b' @ hex32 c' @ hex32 d' @ hex32 e' @ hex32 f' @ hex32 g' @ hex32 h'"
    by (simp add: hexdigest_def u v)
  then have "hex32 a = hex32 a' \<and> hex32 b = hex32 b' \<and> hex32 c = hex32 c' \<and>
      hex32 d = hex32 d' \<and> hex32 e = hex32 e' \<and> hex32 f = hex32 f' \<and>
      hex32 g = hex32 g' \<and> hex32 h = hex32 h'"
    by (simp add: append_eq_append_conv length_hex32)
  then show ?thesis
    by (simp add: u v hex32_inj)
qed

lemma encode_inj: "encode x = encode y \<Longrightarrow> x = y"
proof -
  have "inj (of_char :: char \<Rightarrow> 8 word)"
  proof (rule injI)
    fix c d :: char
    assume "(of_char c :: 8 word) = of_char d"
    then have "unat (of_nat (of_char c) :: 8 word) = unat (of_nat (of_char d) :: 8 word)"
      by (simp only: of_nat_of_char)
    then have "(of_char c :: nat) = of_char d"
      by (simp add: unat_of_nat)
    then show "c = d"
      by simp
  qed
  then have "inj (map (of_char :: char \<Rightarrow> 8 word))" by simp
  then show "encode x = encode y \<Longrightarrow> x = y"
    by (simp add: encode_def inj_def)
qed

lemma get_cache_key_eq_iff:
  "get_cache_key q d = get_cache_key q' d' \<longleftrightarrow>
     sha256 (encode (q @ '':'' @ d)) = sha256 (encode (q' @ '':'' @ d'))"
  using hexdigest_inj [of "sha256 (encode (q @ '':'' @ d))" "sha256 (encode (q' @ '':'' @ d'))"]
  by (auto simp add: get_cache_key_def Let_def)

lemma joined_text_same_length:
  assumes "length q = length q'" and "q @ '':'' @ d = q' @ '':'' @ d'"
  shows "q = q' \<and> d = d'"
  using assms by simp

lemma get_cache_key_not_injective: "\<not> inj (\<lambda>d. get_cache_key [] d)"
proof
  assume "inj (\<lambda>d. get_cache_key [] d)"
  then have "infinite (range (\<lambda>d. get_cache_key [] d))"
    using infinite_UNIV_listI finite_imageD by blast
  moreover have "range (\<lambda>d. get_cache_key [] d) \<subseteq> {s. set s \<subseteq> UNIV \<and> length s = 64}"
    by (auto simp add: length_get_cache_key)
  moreover have "finite {s :: string. set s \<subseteq> UNIV \<and> length s = 64}"
    by (rule finite_lists_length_eq) simp
  ultimately show False
    using finite_subset by blast
qed

section \<open>What the dispatcher and the analyzer leave alone\<close>

declare retry.simps [simp del]

lemma openai_fallback_cache: "cache (snd (openai_fallback e s prompt)) = cache s"
  by (simp add: openai_fallback_def Let_def split: sum.splits)

lemma call_llm_attempt_cache: "cache (snd (call_llm_attempt e s prompt)) = cache s"
  by (simp add: call_llm_attempt_def Let_def openai_fallback_cache split: sum.splits)

lemma retry_cache:
  "(\<And>s. cache (snd (f s)) = cache s) \<Longrightarrow> cache (snd (retry f n s)) = cache s"
proof (induction f n s rule: retry.induct)
  case (1 f n s)
  obtain r s' where fs: "f s = (r, s')" by (cases "f s")
  from "1.prems" [of s] fs have c: "cache s' = cache s" by simp
  show ?case
  proof (cases r)
    case (Inr v)
    with fs c show ?thesis by (simp add: retry.simps [of f n s])
  next
    case (Inl err)
    show ?thesis
    proof (cases "n \<ge> 3")
      case True
      with fs c Inl show ?thesis by (simp add: retry.simps [of f n s])
    next
      case False
      from "1.IH" [OF fs [symmetric] Inl False] "1.prems"
      have "cache (snd (retry f (Suc n) (s'\<lparr>sleeps := sleeps s' @ [wait_exponential n]\<rparr>))) =
          cache s'"
        by simp
      with fs c Inl False show ?thesis by (simp add: retry.simps [of f n s])
    qed
  qed
qed

lemma call_llm_cache: "cache (snd (call_llm e s prompt)) = cache s"
  unfolding call_llm_def by (rule retry_cache) (rule call_llm_attempt_cache)

lemma call_llm_cacheD: "call_llm e s prompt = (r, s') \<Longrightarrow> cache s' = cache s"
  using call_llm_cache [of e s prompt] by simp

lemma get_transformer_model_cache: "cache (snd (get_transformer_model e s)) = cache s"
  by (simp add: get_transformer_model_def)

lemma analyze_with_transformers_cache:
  "cache (snd (analyze_with_transformers e s q invoices)) = cache s"
  using get_transformer_model_cache [of e "s\<lparr>heuristic_runs := Suc (heuristic_runs s)\<rparr>"]
  by (auto simp add: analyze_with_transformers_def Let_def split: prod.splits sum.splits)

lemma analyze_with_transformers_cacheD:
  "analyze_with_transformers e s q invoices = (r, s') \<Longrightarrow> cache s' = cache s"
  using analyze_with_transformers_cache [of e s q invoices] by simp

section \<open>The two endpoints and the cache\<close>

lemma free_key_neq: "get_cache_key q d \<noteq> ''free_'' @ get_cache_key q' d'"
proof
  assume "get_cache_key q d = ''free_'' @ get_cache_key q' d'"
  then have "length (get_cache_key q d) = length (''free_'' @ get_cache_key q' d')"
    by simp
  then show False
    by (simp add: length_get_cache_key)
qed

lemma analyze_invoices_frame:
  assumes "\<And>c. k \<noteq> get_cache_key (query request) c"
  shows "cache (snd (analyze_invoices e s request)) k = cache s k"
  using assms
  by (auto simp add: analyze_invoices_def Let_def
      split: sum.splits prod.splits option.splits dest: call_llm_cacheD)

lemma analyze_invoices_free_frame:
  assumes "\<And>c. k \<noteq> ''free_'' @ get_cache_key (query request) c"
  shows "cache (snd (analyze_invoices_free e s request)) k = cache s k"
  using assms
  by (auto simp add: analyze_invoices_free_def Let_def
      split: sum.splits prod.splits option.splits dest: analyze_with_transformers_cacheD)

lemma analyze_invoices_failure:
  "analyze_invoices e s request = (Inl err, s') \<Longrightarrow> cache s' = cache s"
  by (auto simp add: analyze_invoices_def Let_def
      split: sum.splits prod.splits option.splits dest: call_llm_cacheD)

lemma analyze_invoices_free_failure:
  "analyze_invoices_free e s request = (Inl err, s') \<Longrightarrow> cache s' = cache s"
  by (auto simp add: analyze_invoices_free_def Let_def
      split: sum.splits prod.splits option.splits dest: analyze_with_transformers_cacheD)

lemma analyze_invoices_failure_miss:
  "load_request e request = Inr (invoices, csv_content) \<Longrightarrow>
   analyze_invoices e s request = (Inl err, s') \<Longrightarrow>
   cache s' (get_cache_key (query request) csv_content) = None"
  by (auto simp add: analyze_invoices_def Let_def
      split: sum.splits prod.splits option.splits dest: call_llm_cacheD)

lemma analyze_invoices_free_failure_miss:
  "load_request e request = Inr (invoices, csv_content) \<Longrightarrow>
   analyze_invoices_free e s request = (Inl err, s') \<Longrightarrow>
   cache s' (''free_'' @ get_cache_key (query request) csv_content) = None"
  by (auto simp add: analyze_invoices_free_def Let_def
      split: sum.splits prod.splits option.splits dest: analyze_with_transformers_cacheD)

lemma analyze_invoices_twice:
  "analyze_invoices e s request = (Inr response, s') \<Longrightarrow>
   analyze_invoices e s' request = (Inr response, s')"
  by (auto simp add: analyze_invoices_def Let_def
      split: sum.splits prod.splits option.splits dest: call_llm_cacheD)

lemma analyze_invoices_free_twice:
  "analyze_invoices_free e s request = (Inr response, s') \<Longrightarrow>
   analyze_invoices_free e s' request = (Inr response, s')"
  by (auto simp add: analyze_invoices_free_def Let_def
      split: sum.splits prod.splits option.splits dest: analyze_with_transformers_cacheD)

section \<open>Attempts of the dispatcher\<close>

lemma retry_success: "f s = (Inr v, s') \<Longrightarrow> retry f n s = (Inr v, s')"
  by (simp add: retry.simps [of f n s])

lemma retry_three_failures:
  assumes "f s = (Inl e1, s1)"
    and "f (s1\<lparr>sleeps := sleeps s1 @ [4]\<rparr>) = (Inl e2, s2)"
    and "f (s2\<lparr>sleeps := sleeps s2 @ [4]\<rparr>) = (Inl e3, s3)"
  shows "retry f (Suc 0) s = (Inl (RetryError e3), s3)"
  by (simp add: retry.simps [of f "Suc 0"] retry.simps [of f "Suc (Suc 0)"]
      retry.simps [of f "Suc (Suc (Suc 0))"] assms wait_exponential_def)

lemma attempt_fallback:
  assumes "CLAUDE_AVAILABLE e" "truthy (ANTHROPIC_API_KEY e)"
    "OPENAI_AVAILABLE e" "truthy (OPENAI_API_KEY e)"
    "anthropic_messages_create e (claude_calls s) prompt = Inl err"
  shows "call_llm_attempt e s prompt =
    (case openai_chat_completions_create e (openai_calls s) prompt of
       Inr content \<Rightarrow> (Inr content,
         s\<lparr>claude_calls := Suc (claude_calls s), openai_calls := Suc (openai_calls s)\<rparr>)
     | Inl err' \<Rightarrow> (Inl (HTTPException 500 (DetailOf ''OpenAI API error: '' err')),
         s\<lparr>claude_calls := Suc (claude_calls s), openai_calls := Suc (openai_calls s)\<rparr>))"
  using assms
  by (simp add: call_llm_attempt_def openai_fallback_def Let_def split: sum.splits)

lemma attempt_unconfigured:
  assumes "\<not> (CLAUDE_AVAILABLE e \<and> truthy (ANTHROPIC_API_KEY e))"
    and "\<not> (OPENAI_AVAILABLE e \<and> truthy (OPENAI_API_KEY e))"
  shows "call_llm_attempt e s prompt =
    (Inl (HTTPException 500 (Detail (''No LLM API available. Install and configure: '' @
       join '', '' ((if CLAUDE_AVAILABLE e then [''Claude (set ANTHROPIC_API_KEY)''] else []) @
                   (if OPENAI_AVAILABLE e then [''OpenAI (set OPENAI_API_KEY)''] else []))))), s)"
  using assms
  by (auto simp add: call_llm_attempt_def openai_fallback_def Let_def)

section \<open>Numbers that need no rounding\<close>

text \<open>
  A natural number below \<open>2 ^ 53\<close> is a double.
\<close>

declare bit_length.simps [simp del]

lemma bit_length_le: "n < 2 ^ k \<Longrightarrow> bit_length n \<le> k"
proof (induction k arbitrary: n)
  case 0
  then show ?case by (simp add: bit_length.simps)
next
  case (Suc k)
  show ?case
  proof (cases "n = 0")
    case True
    then show ?thesis by (simp add: bit_length.simps)
  next
    case False
    from Suc.prems have "n div 2 < 2 ^ k" by simp
    then have "bit_length (n div 2) \<le> k" by (rule Suc.IH)
    with False show ?thesis by (subst bit_length.simps) simp
  qed
qed

lemma bit_length_pos: "0 < n \<Longrightarrow> 0 < bit_length n"
  by (subst bit_length.simps) simp

lemma round_half_even_of_int: "round_half_even (of_int m) = m"
  by (simp add: round_half_even_def)

lemma round_double_of_nat:
  assumes "n < 2 ^ 53"
  shows "round_double (of_nat n) = of_nat n"
proof (cases "n = 0")
  case True
  then show ?thesis by (simp add: round_double_def)
next
  case False
  define b where "b = bit_length n"
  have b: "0 < b" "b \<le> 53"
    using False assms by (simp_all add: b_def bit_length_pos bit_length_le)
  have e: "exponent (of_nat n) = int b - 1"
    using False by (simp add: exponent_def b_def)
  define k where "k = 53 - b"
  have m: "max (int b - 1) (- 1022) - 52 = - int k"
    using b by (simp add: k_def)
  have ulp: "(2::rat) powi (- int k) = 1 / 2 ^ k"
    by (simp add: power_int_minus field_simps)
  have q: "(of_nat n :: rat) / (1 / 2 ^ k) = of_int (int n * 2 ^ k)"
    by simp
  have "n < 2 ^ 1024"
    using assms by (rule less_trans) simp
  then have "(of_nat n :: rat) < 2 ^ 1024"
    by (metis of_nat_less_iff of_nat_numeral of_nat_power)
  then have lt: "\<not> infinity \<le> (of_nat n :: rat)"
    by (simp add: infinity_def)
  have y: "of_int (round_half_even ((of_nat n :: rat) / (1 / 2 ^ k))) * (1 / 2 ^ k) =
      (of_nat n :: rat)"
    unfolding q round_half_even_of_int by simp
  have "round_double (of_nat n) =
      (let ulp = 2 powi (max (exponent (of_nat n)) (- 1022) - 52);
           y = of_int (round_half_even ((of_nat n :: rat) / ulp)) * ulp
       in if infinity \<le> y then infinity else y)"
    using False by (simp add: round_double_def)
  also have "\<dots> = of_nat n"
    unfolding e m ulp Let_def y using lt by simp
  finally show ?thesis .
qed

lemma round_double_numeral [simp]:
  "numeral k < (9007199254740992::nat) \<Longrightarrow> round_double (numeral k) = numeral k"
  using round_double_of_nat [of "numeral k"] by simp

lemma round_double_0 [simp]: "round_double 0 = 0"
  by (simp add: round_double_def)

lemma round_double_1 [simp]: "round_double 1 = 1"
  using round_double_of_nat [of 1] by simp

text \<open>
  Rules to evaluate a rounding on numerals.
\<close>

lemma floor_numeral_div:
  "\<lfloor>numeral a / numeral b :: rat\<rfloor> = numeral a div numeral b"
  using floor_divide_of_int_eq [of "numeral a" "numeral b", where ?'a = rat] by simp

lemma ceiling_numeral_div:
  "\<lceil>numeral a / numeral b :: rat\<rceil> = - (- numeral a div numeral b)"
  using floor_divide_of_int_eq [of "- numeral a" "numeral b", where ?'a = rat]
  by (simp add: ceiling_def)

lemma bit_length_numeral:
  "bit_length 0 = 0"
  "bit_length (Suc 0) = Suc 0"
  "bit_length (numeral k) = Suc (bit_length (numeral k div 2))"
  by (subst bit_length.simps, simp)+

lemmas double_defs = round_double_def Let_def exponent_def power_int_minus round_half_even_def
  infinity_def floor_numeral_div ceiling_numeral_div bit_length_numeral

section \<open>The example dataset\<close>

lemmas string_defs = continuation_bytes_def is_continuation_def ord_def str_len_def
  isspace_def whitespace_def strip_def

lemmas csv_defs = parse_process_char_def in_start_field_def end_of_field_def parse_add_char_def
  parse_save_field_def parse_reset_def is_crnl_def DictReader_def DictReader_next_def
  InvoiceData_kwargs_def InvoiceData_of_def required_def dict_get_def is_continuation_def
  continuation_bytes_def str_len_def

lemma strip_csv_two: "strip csv_two = csv_two"
  by (simp add: string_defs csv_two_def nl_def)

lemma split_csv_two:
  "split_nl csv_two = [''invoice_id,customer,amount,paid_at,status'',
     ''1,A,100,2024-01-01,Paid'', ''2,B,50,2024-01-02,Partially Paid'']"
  by (simp add: csv_two_def nl_def)

lemma reader_rows_two:
  "reader_rows parse_reset [''invoice_id,customer,amount,paid_at,status'',
     ''1,A,100,2024-01-01,Paid'', ''2,B,50,2024-01-02,Partially Paid''] =
   ([[''invoice_id'', ''customer'', ''amount'', ''paid_at'', ''status''],
     [''1'', ''A'', ''100'', ''2024-01-01'', ''Paid''],
     [''2'', ''B'', ''50'', ''2024-01-02'', ''Partially Paid'']], None)"
  by (simp add: csv_defs)

lemma load_request_two:
  "load_request e \<lparr>query = q, csv_data = Some csv_two\<rparr> = Inr (invoices_two, csv_two)"
proof -
  have "csv_two \<noteq> []"
    by (simp add: csv_two_def)
  then show ?thesis
    by (simp add: load_request_def truthy_def strip_csv_two split_csv_two reader_rows_two
        csv_defs invoices_two_def)
qed

lemmas amount_defs = amount_guard_def isdigit_def isdigit_char_def decimal_def decimal_zeros_def
  continuation_bytes_def ord_def str_len_def replace_dot_def float_def digits_nat_def

lemmas analysis_defs = heuristic_analysis_def any_word_def lower_def lower_char_def
  amount_defs true_div_def int_true_div_def float_add_def float_mul_def float_div_def
  infinity_def sorted_reverse_def dict_add_def

lemma state_init_sel:
  "cache state_init k = None" "model_loaded state_init = False" "claude_calls state_init = 0"
  "openai_calls state_init = 0" "heuristic_runs state_init = 0" "sleeps state_init = []"
  by (simp_all add: state_init_def)

lemma load_request_dots:
  "load_request e \<lparr>query = q, csv_data = Some csv_dots\<rparr> = Inr (invoices_dots, csv_dots)"
proof -
  have "csv_dots \<noteq> []"
    by (simp add: csv_dots_def)
  moreover have "strip csv_dots = csv_dots"
    by (simp add: string_defs csv_dots_def nl_def)
  moreover have "split_nl csv_dots =
      [''invoice_id,customer,amount,paid_at,status'', ''1,A,1.2.3,2024-01-01,Paid'']"
    by (simp add: csv_dots_def nl_def)
  moreover have "reader_rows parse_reset
      [''invoice_id,customer,amount,paid_at,status'', ''1,A,1.2.3,2024-01-01,Paid''] =
      ([[''invoice_id'', ''customer'', ''amount'', ''paid_at'', ''status''],
        [''1'', ''A'', ''1.2.3'', ''2024-01-01'', ''Paid'']], None)"
    by (simp add: csv_defs)
  ultimately show ?thesis
    by (simp add: load_request_def truthy_def csv_defs invoices_dots_def)
qed

lemma heuristic_two_total:
  "heuristic_analysis ''total revenue'' invoices_two = Inr (TotalRevenueAnalysis 2 150 1 1 75)"
  by (simp add: analysis_defs invoices_two_def)

lemma heuristic_dots: "heuristic_analysis q invoices_dots = Inl (ValueError ''1.2.3'')"
  by (simp add: analysis_defs invoices_dots_def)

lemma analyze_free_two:
  "analyze_invoices_free env_no_keys state_init
       \<lparr>query = ''total revenue'', csv_data = Some csv_two\<rparr> =
     (Inr \<lparr>analysis = TotalRevenueAnalysis 2 150 1 1 75, invoices_analyzed = 2,
           query_hash = ''free_'' @ take 3 (get_cache_key ''total revenue'' csv_two)\<rparr>,
      state_init\<lparr>cache := [''free_'' @ get_cache_key ''total revenue'' csv_two \<mapsto>
           \<lparr>analysis = TotalRevenueAnalysis 2 150 1 1 75, invoices_analyzed = 2,
            query_hash = ''free_'' @ take 3 (get_cache_key ''total revenue'' csv_two)\<rparr>],
        model_loaded := True, heuristic_runs := 1\<rparr>)"
  by (simp add: analyze_invoices_free_def load_request_two Let_def state_init_sel
      analyze_with_transformers_def get_transformer_model_def env_no_keys_def
      heuristic_two_total)
    (simp add: state_init_def invoices_two_def numeral_2_eq_2)

lemma analyze_free_dots:
  "analyze_invoices_free env_no_keys state_init
       \<lparr>query = ''total revenue'', csv_data = Some csv_dots\<rparr> =
     (Inl (HTTPException 500 (DetailOf ''Free analysis failed: '' (ValueError ''1.2.3''))),
      state_init\<lparr>model_loaded := True, heuristic_runs := 1\<rparr>)"
  by (simp add: analyze_invoices_free_def load_request_dots Let_def state_init_def
      analyze_with_transformers_def get_transformer_model_def env_no_keys_def
      heuristic_dots)

lemma call_llm_fallback:
  "call_llm env_fallback state_init p =
     (Inr ''Two invoices, 150.00 in total.'',
      state_init\<lparr>claude_calls := 1, openai_calls := 1\<rparr>)"
proof -
  have "call_llm_attempt env_fallback state_init p =
      (Inr ''Two invoices, 150.00 in total.'',
       state_init\<lparr>claude_calls := 1, openai_calls := 1\<rparr>)"
    by (simp add: call_llm_attempt_def openai_fallback_def env_fallback_def state_init_def
        truthy_def)
  then show ?thesis
    unfolding call_llm_def by (rule retry_success)
qed

lemma call_llm_no_keys:
  "call_llm env_no_keys state_init p =
     (Inl (RetryError (HTTPException 500 (Detail
        ''No LLM API available. Install and configure: Claude (set ANTHROPIC_API_KEY), OpenAI (set OPENAI_API_KEY)''))),
      state_init\<lparr>sleeps := [4, 4]\<rparr>)"
proof -
  have step: "call_llm_attempt env_no_keys t p =
      (Inl (HTTPException 500 (Detail
        ''No LLM API available. Install and configure: Claude (set ANTHROPIC_API_KEY), OpenAI (set OPENAI_API_KEY)'')), t)"
    for t
    by (simp add: call_llm_attempt_def openai_fallback_def env_no_keys_def truthy_def)
  show ?thesis
    unfolding call_llm_def
    using retry_three_failures [of "\<lambda>s'. call_llm_attempt env_no_keys s' p" state_init
        _ _ _ _ _ _, OF step step step]
    by (simp add: state_init_def)
qed

lemma analyze_fallback_two:
  "analyze_invoices env_fallback state_init
       \<lparr>query = ''total revenue'', csv_data = Some csv_two\<rparr> =
     (Inr \<lparr>analysis = LLMText ''Two invoices, 150.00 in total.'', invoices_analyzed = 2,
           query_hash = take 8 (get_cache_key ''total revenue'' csv_two)\<rparr>,
      state_init\<lparr>cache := [get_cache_key ''total revenue'' csv_two \<mapsto>
           \<lparr>analysis = LLMText ''Two invoices, 150.00 in total.'', invoices_analyzed = 2,
            query_hash = take 8 (get_cache_key ''total revenue'' csv_two)\<rparr>],
        claude_calls := 1, openai_calls := 1\<rparr>)"
  by (simp add: analyze_invoices_def load_request_two Let_def call_llm_fallback state_init_sel)
    (simp add: state_init_def invoices_two_def numeral_2_eq_2)

lemma analyze_no_keys_two:
  "analyze_invoices env_no_keys state_init
       \<lparr>query = ''total revenue'', csv_data = Some csv_two\<rparr> =
     (Inl (HTTPException 500 (DetailOf ''Analysis failed: ''
        (RetryError (HTTPException 500 (Detail
           ''No LLM API available. Install and configure: Claude (set ANTHROPIC_API_KEY), OpenAI (set OPENAI_API_KEY)''))))),
      state_init\<lparr>sleeps := [4, 4]\<rparr>)"
  by (simp add: analyze_invoices_def load_request_two Let_def call_llm_no_keys state_init_sel)

section \<open>Claims about the fingerprint\<close>

text \<open>
  C1, as stated, fails: the query and the dataset are joined by a colon before hashing, so
  two different pairs with the same joined text have the same fingerprint. The pairs
  \<open>("a:b", "c")\<close> and \<open>("a", "b:c")\<close> differ in the query and in the dataset, and both hash
  the text \<open>a:b:c\<close>.
\<close>

theorem get_cache_key_colon_collision:
  "(''a:b'', ''c'') \<noteq> (''a'', ''b:c'') \<and> get_cache_key ''a:b'' ''c'' = get_cache_key ''a'' ''b:c''"
  by (simp add: get_cache_key_def)

text \<open>
  C1, amended: the fingerprint of a pair is stable, and two pairs that differ, by even one
  character, only in the dataset, or only in the query, or in queries of the same length,
  or in queries that contain no colon, have different fingerprints unless SHA-256 itself
  collides on their joined texts (two different texts with the same digest; a digest of
  fixed width cannot separate all texts, \<open>get_cache_key_not_injective\<close>).
\<close>

theorem get_cache_key_sensitivity:
  "(q = q' \<and> d = d' \<longrightarrow> get_cache_key q d = get_cache_key q' d') \<and>
   ((q \<noteq> q' \<or> d \<noteq> d') \<and>
    (q = q' \<or> d = d' \<or> length q = length q' \<or>
     CHR '':'' \<notin> set q \<and> CHR '':'' \<notin> set q')
    \<longrightarrow> sha256_collision (q @ '':'' @ d) (q' @ '':'' @ d') \<or>
        get_cache_key q d \<noteq> get_cache_key q' d')"
proof (intro conjI impI)
  assume "q = q' \<and> d = d'"
  then show "get_cache_key q d = get_cache_key q' d'"
    by simp
next
  assume h: "(q \<noteq> q' \<or> d \<noteq> d') \<and>
    (q = q' \<or> d = d' \<or> length q = length q' \<or>
     CHR '':'' \<notin> set q \<and> CHR '':'' \<notin> set q')"
  have texts: "q @ '':'' @ d \<noteq> q' @ '':'' @ d'"
  proof
    assume eq: "q @ '':'' @ d = q' @ '':'' @ d'"
    from h consider "q = q'" | "d = d'" | "length q = length q'"
      | "CHR '':'' \<notin> set q \<and> CHR '':'' \<notin> set q'"
      by blast
    then have "q = q' \<and> d = d'"
    proof cases
      case 1
      with eq show ?thesis by simp
    next
      case 2
      with eq show ?thesis by simp
    next
      case 3
      then show ?thesis using eq by (rule joined_text_same_length)
    next
      case 4
      with eq show ?thesis using joined_text_no_colon [of q q' d d'] by simp
    qed
    with h show False by simp
  qed
  show "sha256_collision (q @ '':'' @ d) (q' @ '':'' @ d') \<or>
      get_cache_key q d \<noteq> get_cache_key q' d'"
    using texts by (auto simp add: sha256_collision_def get_cache_key_eq_iff)
qed

text \<open>
  Two requests with the same query whose datasets differ in one trailing space.
\<close>

theorem get_cache_key_sensitivity_witness:
  "(''total'', ''a'') \<noteq> (''total'', ''a '') \<and>
   (sha256_collision (''total'' @ '':'' @ ''a'') (''total'' @ '':'' @ ''a '') \<or>
    get_cache_key ''total'' ''a'' \<noteq> get_cache_key ''total'' ''a '')"
  using get_cache_key_sensitivity [of "''total''" "''total''" "''a''" "''a ''"]
  by simp

section \<open>Claims about the cache\<close>

text \<open>
  C9: the key of the provider-backed endpoint is a digest of 64 characters and the key
  of the heuristic endpoint is \<open>free_\<close> followed by a digest, so no key of one is a key of
  the other, whatever the two requests; the provider-backed endpoint leaves every entry
  under a heuristic key as it was, and the heuristic endpoint every entry under a
  provider key.
\<close>

theorem cache_keys_disjoint:
  "get_cache_key q d \<noteq> ''free_'' @ get_cache_key q' d' \<and>
   cache (snd (analyze_invoices e s request)) (''free_'' @ get_cache_key q d) =
     cache s (''free_'' @ get_cache_key q d) \<and>
   cache (snd (analyze_invoices_free e s request)) (get_cache_key q d) =
     cache s (get_cache_key q d)"
proof (intro conjI)
  show "get_cache_key q d \<noteq> ''free_'' @ get_cache_key q' d'"
    by (rule free_key_neq)
  show "cache (snd (analyze_invoices e s request)) (''free_'' @ get_cache_key q d) =
      cache s (''free_'' @ get_cache_key q d)"
    using free_key_neq [of "query request" _ q d]
    by (intro analyze_invoices_frame) (metis (no_types))
  show "cache (snd (analyze_invoices_free e s request)) (get_cache_key q d) =
      cache s (get_cache_key q d)"
    by (rule analyze_invoices_free_frame) (rule free_key_neq)
qed

text \<open>
  C10: a request that fails, on either endpoint and at any step, leaves the cache as it
  was, so its size is unchanged; and when the request got as far as the analysis step
  (its records were loaded), there is no entry under its key afterwards, so the same
  request is not answered from the cache.
\<close>

theorem failure_leaves_cache_unchanged:
  "(analyze_invoices e s request = (Inl err, s') \<longrightarrow>
      cache s' = cache s \<and> health_check s' = health_check s \<and>
      (\<forall>invoices csv_content. load_request e request = Inr (invoices, csv_content) \<longrightarrow>
         cache s' (get_cache_key (query request) csv_content) = None)) \<and>
   (analyze_invoices_free e s request = (Inl err, s') \<longrightarrow>
      cache s' = cache s \<and> health_check s' = health_check s \<and>
      (\<forall>invoices csv_content. load_request e request = Inr (invoices, csv_content) \<longrightarrow>
         cache s' (''free_'' @ get_cache_key (query request) csv_content) = None))"
  using analyze_invoices_failure [of e s request err s']
    analyze_invoices_free_failure [of e s request err s']
    analyze_invoices_failure_miss [of e request _ _ s err s']
    analyze_invoices_free_failure_miss [of e request _ _ s err s']
  by (auto simp add: health_check_def)

text \<open>
  Two failing requests on a fresh process: the provider-backed endpoint with no
  credential set, and the heuristic endpoint on a record whose amount is \<open>1.2.3\<close>. Both
  leave the cache empty.
\<close>

theorem failure_leaves_cache_unchanged_witness:
  "analyze_invoices env_no_keys state_init
       \<lparr>query = ''total revenue'', csv_data = Some csv_two\<rparr> =
     (Inl (HTTPException 500 (DetailOf ''Analysis failed: ''
        (RetryError (HTTPException 500 (Detail
           ''No LLM API available. Install and configure: Claude (set ANTHROPIC_API_KEY), OpenAI (set OPENAI_API_KEY)''))))),
      state_init\<lparr>sleeps := [4, 4]\<rparr>) \<and>
   cache (state_init\<lparr>sleeps := [4, 4]\<rparr>) = cache state_init \<and>
   health_check (state_init\<lparr>sleeps := [4, 4]\<rparr>) = health_check state_init \<and>
   cache (state_init\<lparr>sleeps := [4, 4]\<rparr>) (get_cache_key ''total revenue'' csv_two) = None \<and>
   analyze_invoices_free env_no_keys state_init
       \<lparr>query = ''total revenue'', csv_data = Some csv_dots\<rparr> =
     (Inl (HTTPException 500 (DetailOf ''Free analysis failed: '' (ValueError ''1.2.3''))),
      state_init\<lparr>model_loaded := True, heuristic_runs := 1\<rparr>) \<and>
   cache (state_init\<lparr>model_loaded := True, heuristic_runs := 1\<rparr>) = cache state_init \<and>
   health_check (state_init\<lparr>model_loaded := True, heuristic_runs := 1\<rparr>) =
     health_check state_init \<and>
   cache (state_init\<lparr>model_loaded := True, heuristic_runs := 1\<rparr>)
     (''free_'' @ get_cache_key ''total revenue'' csv_dots) = None"
  using failure_leaves_cache_unchanged [of env_no_keys state_init
      "\<lparr>query = ''total revenue'', csv_data = Some csv_two\<rparr>"
      "HTTPException 500 (DetailOf ''Analysis failed: ''
        (RetryError (HTTPException 500 (Detail
           ''No LLM API available. Install and configure: Claude (set ANTHROPIC_API_KEY), OpenAI (set OPENAI_API_KEY)''))))"
      "state_init\<lparr>sleeps := [4, 4]\<rparr>"]
    failure_leaves_cache_unchanged [of env_no_keys state_init
      "\<lparr>query = ''total revenue'', csv_data = Some csv_dots\<rparr>"
      "HTTPException 500 (DetailOf ''Free analysis failed: '' (ValueError ''1.2.3''))"
      "state_init\<lparr>model_loaded := True, heuristic_runs := 1\<rparr>"]
    analyze_no_keys_two analyze_free_dots
    load_request_two [of env_no_keys "''total revenue''"]
    load_request_dots [of env_no_keys "''total revenue''"]
  by simp

text \<open>
  C2: when a request has been answered, on either endpoint, the same request issued next
  gets the same response, and the whole state is as the first call left it: no provider
  was called again, the heuristic analyzer did not run again, nothing was slept, and the
  cache holds what it held.
\<close>

theorem cache_idempotence:
  "(analyze_invoices e s request = (Inr response, s') \<longrightarrow>
      analyze_invoices e s' request = (Inr response, s')) \<and>
   (analyze_invoices_free e s request = (Inr response, s') \<longrightarrow>
      analyze_invoices_free e s' request = (Inr response, s'))"
  using analyze_invoices_twice [of e s request response s']
    analyze_invoices_free_twice [of e s request response s']
  by blast

text \<open>
  The revenue scenario on a fresh process, through the provider-backed endpoint (Claude
  fails, OpenAI answers) and through the heuristic endpoint: the second call returns the
  response of the first and changes nothing.
\<close>

theorem cache_idempotence_witness:
  "analyze_invoices env_fallback state_init
       \<lparr>query = ''total revenue'', csv_data = Some csv_two\<rparr> =
     (Inr \<lparr>analysis = LLMText ''Two invoices, 150.00 in total.'', invoices_analyzed = 2,
           query_hash = take 8 (get_cache_key ''total revenue'' csv_two)\<rparr>,
      state_init\<lparr>cache := [get_cache_key ''total revenue'' csv_two \<mapsto>
           \<lparr>analysis = LLMText ''Two invoices, 150.00 in total.'', invoices_analyzed = 2,
            query_hash = take 8 (get_cache_key ''total revenue'' csv_two)\<rparr>],
        claude_calls := 1, openai_calls := 1\<rparr>) \<and>
   analyze_invoices env_fallback
       (state_init\<lparr>cache := [get_cache_key ''total revenue'' csv_two \<mapsto>
           \<lparr>analysis = LLMText ''Two invoices, 150.00 in total.'', invoices_analyzed = 2,
            query_hash = take 8 (get_cache_key ''total revenue'' csv_two)\<rparr>],
        claude_calls := 1, openai_calls := 1\<rparr>)
       \<lparr>query = ''total revenue'', csv_data = Some csv_two\<rparr> =
     (Inr \<lparr>analysis = LLMText ''Two invoices, 150.00 in total.'', invoices_analyzed = 2,
           query_hash = take 8 (get_cache_key ''total revenue'' csv_two)\<rparr>,
      state_init\<lparr>cache := [get_cache_key ''total revenue'' csv_two \<mapsto>
           \<lparr>analysis = LLMText ''Two invoices, 150.00 in total.'', invoices_analyzed = 2,
            query_hash = take 8 (get_cache_key ''total revenue'' csv_two)\<rparr>],
        claude_calls := 1, openai_calls := 1\<rparr>) \<and>
   analyze_invoices_free env_no_keys state_init
       \<lparr>query = ''total revenue'', csv_data = Some csv_two\<rparr> =
     (Inr \<lparr>analysis = TotalRevenueAnalysis 2 150 1 1 75, invoices_analyzed = 2,
           query_hash = ''free_'' @ take 3 (get_cache_key ''total revenue'' csv_two)\<rparr>,
      state_init\<lparr>cache := [''free_'' @ get_cache_key ''total revenue'' csv_two \<mapsto>
           \<lparr>analysis = TotalRevenueAnalysis 2 150 1 1 75, invoices_analyzed = 2,
            query_hash = ''free_'' @ take 3 (get_cache_key ''total revenue'' csv_two)\<rparr>],
        model_loaded := True, heuristic_runs := 1\<rparr>) \<and>
   analyze_invoices_free env_no_keys
       (state_init\<lparr>cache := [''free_'' @ get_cache_key ''total revenue'' csv_two \<mapsto>
           \<lparr>analysis = TotalRevenueAnalysis 2 150 1 1 75, invoices_analyzed = 2,
            query_hash = ''free_'' @ take 3 (get_cache_key ''total revenue'' csv_two)\<rparr>],
        model_loaded := True, heuristic_runs := 1\<rparr>)
       \<lparr>query = ''total revenue'', csv_data = Some csv_two\<rparr> =
     (Inr \<lparr>analysis = TotalRevenueAnalysis 2 150 1 1 75, invoices_analyzed = 2,
           query_hash = ''free_'' @ take 3 (get_cache_key ''total revenue'' csv_two)\<rparr>,
      state_init\<lparr>cache := [''free_'' @ get_cache_key ''total revenue'' csv_two \<mapsto>
           \<lparr>analysis = TotalRevenueAnalysis 2 150 1 1 75, invoices_analyzed = 2,
            query_hash = ''free_'' @ take 3 (get_cache_key ''total revenue'' csv_two)\<rparr>],
        model_loaded := True, heuristic_runs := 1\<rparr>)"
  using cache_idempotence [of env_fallback state_init
      "\<lparr>query = ''total revenue'', csv_data = Some csv_two\<rparr>"
      "\<lparr>analysis = LLMText ''Two invoices, 150.00 in total.'', invoices_analyzed = 2,
        query_hash = take 8 (get_cache_key ''total revenue'' csv_two)\<rparr>"
      "state_init\<lparr>cache := [get_cache_key ''total revenue'' csv_two \<mapsto>
           \<lparr>analysis = LLMText ''Two invoices, 150.00 in total.'', invoices_analyzed = 2,
            query_hash = take 8 (get_cache_key ''total revenue'' csv_two)\<rparr>],
        claude_calls := 1, openai_calls := 1\<rparr>"]
    cache_idempotence [of env_no_keys state_init
      "\<lparr>query = ''total revenue'', csv_data = Some csv_two\<rparr>"
      "\<lparr>analysis = TotalRevenueAnalysis 2 150 1 1 75, invoices_analyzed = 2,
        query_hash = ''free_'' @ take 3 (get_cache_key ''total revenue'' csv_two)\<rparr>"
      "state_init\<lparr>cache := [''free_'' @ get_cache_key ''total revenue'' csv_two \<mapsto>
           \<lparr>analysis = TotalRevenueAnalysis 2 150 1 1 75, invoices_analyzed = 2,
            query_hash = ''free_'' @ take 3 (get_cache_key ''total revenue'' csv_two)\<rparr>],
        model_loaded := True, heuristic_runs := 1\<rparr>"]
    analyze_fallback_two analyze_free_two
  by blast

section \<open>Claims about the dispatcher\<close>

text \<open>
  C3, as stated, fails: with both providers configured, Claude always failing and OpenAI
  answering, the dispatcher returns OpenAI's answer after one failed call to Claude, not
  three, and without any backoff. The retry decorator wraps the whole of \<open>call_llm\<close>, and
  inside one attempt a failure of Claude falls through to OpenAI when its key is set.
\<close>

theorem fallback_after_one_failure:
  "fst (call_llm env_fallback state_init ''prompt'') = Inr ''Two invoices, 150.00 in total.'' \<and>
   claude_calls (snd (call_llm env_fallback state_init ''prompt'')) = 1 \<and>
   openai_calls (snd (call_llm env_fallback state_init ''prompt'')) = 1 \<and>
   sleeps (snd (call_llm env_fallback state_init ''prompt'')) = []"
  by (simp add: call_llm_fallback state_init_sel)

text \<open>
  C3, amended: when both providers are configured, the call to the primary fails and the
  call to the secondary succeeds, the dispatcher returns the secondary's result within
  the same attempt: exactly one failed call is recorded against the primary, one call
  against the secondary, and nothing is slept. The three attempts and the backoff belong
  to the dispatch as a whole: when every call to both providers fails, each provider is
  called exactly three times, 4 seconds are slept after the first and after the second
  attempt, and the dispatcher fails with \<open>RetryError\<close> around the secondary's last error.
\<close>

theorem fallback_within_one_attempt:
  "(CLAUDE_AVAILABLE e \<and> truthy (ANTHROPIC_API_KEY e) \<and>
    OPENAI_AVAILABLE e \<and> truthy (OPENAI_API_KEY e) \<and>
    anthropic_messages_create e (claude_calls s) prompt = Inl err \<and>
    openai_chat_completions_create e (openai_calls s) prompt = Inr content
    \<longrightarrow> call_llm e s prompt =
          (Inr content,
           s\<lparr>claude_calls := Suc (claude_calls s), openai_calls := Suc (openai_calls s)\<rparr>)) \<and>
   (CLAUDE_AVAILABLE e \<and> truthy (ANTHROPIC_API_KEY e) \<and>
    OPENAI_AVAILABLE e \<and> truthy (OPENAI_API_KEY e) \<and>
    (\<forall>n. anthropic_messages_create e n prompt = Inl (claude_err n)) \<and>
    (\<forall>n. openai_chat_completions_create e n prompt = Inl (openai_err n))
    \<longrightarrow> call_llm e s prompt =
          (Inl (RetryError (HTTPException 500
                  (DetailOf ''OpenAI API error: '' (openai_err (openai_calls s + 2))))),
           s\<lparr>claude_calls := claude_calls s + 3, openai_calls := openai_calls s + 3,
             sleeps := sleeps s @ [4, 4]\<rparr>))"
proof (intro conjI impI)
  assume h: "CLAUDE_AVAILABLE e \<and> truthy (ANTHROPIC_API_KEY e) \<and>
    OPENAI_AVAILABLE e \<and> truthy (OPENAI_API_KEY e) \<and>
    anthropic_messages_create e (claude_calls s) prompt = Inl err \<and>
    openai_chat_completions_create e (openai_calls s) prompt = Inr content"
  then have "call_llm_attempt e s prompt =
      (Inr content,
       s\<lparr>claude_calls := Suc (claude_calls s), openai_calls := Suc (openai_calls s)\<rparr>)"
    using attempt_fallback [of e s prompt err] by simp
  then show "call_llm e s prompt =
      (Inr content,
       s\<lparr>claude_calls := Suc (claude_calls s), openai_calls := Suc (openai_calls s)\<rparr>)"
    unfolding call_llm_def by (rule retry_success)
next
  assume h: "CLAUDE_AVAILABLE e \<and> truthy (ANTHROPIC_API_KEY e) \<and>
    OPENAI_AVAILABLE e \<and> truthy (OPENAI_API_KEY e) \<and>
    (\<forall>n. anthropic_messages_create e n prompt = Inl (claude_err n)) \<and>
    (\<forall>n. openai_chat_completions_create e n prompt = Inl (openai_err n))"
  have step: "call_llm_attempt e t prompt =
      (Inl (HTTPException 500 (DetailOf ''OpenAI API error: '' (openai_err (openai_calls t)))),
       t\<lparr>claude_calls := Suc (claude_calls t), openai_calls := Suc (openai_calls t)\<rparr>)" for t
    using h attempt_fallback [of e t prompt "claude_err (claude_calls t)"] by simp
  show "call_llm e s prompt =
      (Inl (RetryError (HTTPException 500
              (DetailOf ''OpenAI API error: '' (openai_err (openai_calls s + 2))))),
       s\<lparr>claude_calls := claude_calls s + 3, openai_calls := openai_calls s + 3,
         sleeps := sleeps s @ [4, 4]\<rparr>)"
    unfolding call_llm_def
    using retry_three_failures [of "\<lambda>s'. call_llm_attempt e s' prompt" s _ _ _ _ _ _,
        OF step step step]
    by simp
qed

text \<open>
  On a fresh process: Claude failing and OpenAI answering, and both failing on every call.
\<close>

theorem fallback_within_one_attempt_witness:
  "CLAUDE_AVAILABLE env_fallback \<and> truthy (ANTHROPIC_API_KEY env_fallback) \<and>
   OPENAI_AVAILABLE env_fallback \<and> truthy (OPENAI_API_KEY env_fallback) \<and>
   anthropic_messages_create env_fallback (claude_calls state_init) ''prompt'' =
     Inl (ApiError ''overloaded'') \<and>
   call_llm env_fallback state_init ''prompt'' =
     (Inr ''Two invoices, 150.00 in total.'',
      state_init\<lparr>claude_calls := 1, openai_calls := 1\<rparr>) \<and>
   CLAUDE_AVAILABLE env_failing \<and> truthy (ANTHROPIC_API_KEY env_failing) \<and>
   OPENAI_AVAILABLE env_failing \<and> truthy (OPENAI_API_KEY env_failing) \<and>
   call_llm env_failing state_init ''prompt'' =
     (Inl (RetryError (HTTPException 500
             (DetailOf ''OpenAI API error: '' (ApiError ''rate limit'')))),
      state_init\<lparr>claude_calls := 3, openai_calls := 3, sleeps := [4, 4]\<rparr>)"
  using fallback_within_one_attempt [of env_fallback state_init "''prompt''"
      "ApiError ''overloaded''" "''Two invoices, 150.00 in total.''"
      "\<lambda>n. ApiError ''overloaded''" "\<lambda>n. ApiError ''rate limit''"]
    fallback_within_one_attempt [of env_failing state_init "''prompt''"
      "ApiError ''overloaded''" "''Two invoices, 150.00 in total.''"
      "\<lambda>n. ApiError ''overloaded''" "\<lambda>n. ApiError ''rate limit''"]
  by (simp add: env_fallback_def env_failing_def state_init_def truthy_def)

text \<open>
  C8, as stated, fails: with no credential set, the dispatcher does not fail at once. The
  configuration error is an \<open>HTTPException\<close>, which the decorator retries like any other
  exception: two backoff sleeps of 4 seconds are made, and what the caller gets is
  \<open>RetryError\<close>, not the configuration error.
\<close>

theorem unconfigured_sleeps_and_retries:
  "sleeps (snd (call_llm env_no_keys state_init ''prompt'')) = [4, 4] \<and>
   fst (call_llm env_no_keys state_init ''prompt'') =
     Inl (RetryError (HTTPException 500 (Detail
        ''No LLM API available. Install and configure: Claude (set ANTHROPIC_API_KEY), OpenAI (set OPENAI_API_KEY)'')))"
  by (simp add: call_llm_no_keys state_init_sel)

text \<open>
  C8, amended: when no provider is usable (for each, its library is absent or its
  credential is not set), the dispatcher calls no provider; each of its three attempts
  raises the configuration error, whose message lists every provider whose library is
  installed, with the credential to set; 4 seconds are slept after the first and after the
  second attempt, and the dispatcher then fails with \<open>RetryError\<close> around the
  configuration error.
\<close>

theorem unconfigured_is_retried:
  "\<not> (CLAUDE_AVAILABLE e \<and> truthy (ANTHROPIC_API_KEY e)) \<and>
   \<not> (OPENAI_AVAILABLE e \<and> truthy (OPENAI_API_KEY e))
   \<longrightarrow> call_llm e s prompt =
         (Inl (RetryError (HTTPException 500
            (Detail (''No LLM API available. Install and configure: '' @
               join '', ''
                 ((if CLAUDE_AVAILABLE e then [''Claude (set ANTHROPIC_API_KEY)''] else []) @
                  (if OPENAI_AVAILABLE e then [''OpenAI (set OPENAI_API_KEY)''] else [])))))),
          s\<lparr>sleeps := sleeps s @ [4, 4]\<rparr>)"
proof
  assume h: "\<not> (CLAUDE_AVAILABLE e \<and> truthy (ANTHROPIC_API_KEY e)) \<and>
   \<not> (OPENAI_AVAILABLE e \<and> truthy (OPENAI_API_KEY e))"
  have step: "call_llm_attempt e t prompt =
    (Inl (HTTPException 500 (Detail (''No LLM API available. Install and configure: '' @
       join '', '' ((if CLAUDE_AVAILABLE e then [''Claude (set ANTHROPIC_API_KEY)''] else []) @
                   (if OPENAI_AVAILABLE e then [''OpenAI (set OPENAI_API_KEY)''] else []))))), t)"
    for t
    using h attempt_unconfigured [of e t prompt] by blast
  show "call_llm e s prompt =
         (Inl (RetryError (HTTPException 500
            (Detail (''No LLM API available. Install and configure: '' @
               join '', ''
                 ((if CLAUDE_AVAILABLE e then [''Claude (set ANTHROPIC_API_KEY)''] else []) @
                  (if OPENAI_AVAILABLE e then [''OpenAI (set OPENAI_API_KEY)''] else [])))))),
          s\<lparr>sleeps := sleeps s @ [4, 4]\<rparr>)"
    unfolding call_llm_def
    using retry_three_failures [of "\<lambda>s'. call_llm_attempt e s' prompt" s _ _ _ _ _ _,
        OF step step step]
    by simp
qed

text \<open>
  With both credentials set and neither library installed, the message lists no provider.
\<close>

theorem unconfigured_is_retried_witness:
  "\<not> (CLAUDE_AVAILABLE env_no_libraries \<and> truthy (ANTHROPIC_API_KEY env_no_libraries)) \<and>
   \<not> (OPENAI_AVAILABLE env_no_libraries \<and> truthy (OPENAI_API_KEY env_no_libraries)) \<and>
   call_llm env_no_libraries state_init ''prompt'' =
     (Inl (RetryError (HTTPException 500
        (Detail ''No LLM API available. Install and configure: ''))),
      state_init\<lparr>sleeps := [4, 4]\<rparr>)"
  using unconfigured_is_retried [of env_no_libraries state_init "''prompt''"]
  by (simp add: env_no_libraries_def state_init_def)

section \<open>Claims about the heuristic analyzer\<close>

lemma float_error: "float a = Inl err \<Longrightarrow> err = ValueError a"
  by (auto simp add: float_def split: option.splits list.splits if_splits)

lemma sum_amounts_error: "sum_amounts acc invoices = Inl err \<Longrightarrow> \<exists>a. err = ValueError a"
  by (induction invoices arbitrary: acc)
    (auto dest: float_error split: if_splits sum.splits)

lemma top_customers_loop_error:
  "top_customers_loop d invoices = Inl err \<Longrightarrow> \<exists>a. err = ValueError a"
  by (induction invoices arbitrary: d)
    (auto simp add: Let_def dest: float_error split: if_splits sum.splits)

lemma heuristic_analysis_no_zero_division:
  assumes "invoices \<noteq> []"
  shows "heuristic_analysis q invoices \<noteq> Inl ZeroDivisionError"
proof -
  from assms have n: "length invoices \<noteq> 0" by simp
  from assms have c: "length (remdups (map customer invoices)) \<noteq> 0" by simp
  show ?thesis
    using n c sum_amounts_error [of 0 invoices ZeroDivisionError]
      top_customers_loop_error [of "[]" invoices ZeroDivisionError]
    by (auto simp add: heuristic_analysis_def Let_def true_div_def int_true_div_def
        split: sum.splits)
qed

lemma load_request_not_found:
  assumes "\<not> truthy (csv_data request)" and "load_csv_data e = Inr []"
  shows "load_request e request = Inl (HTTPException 404
      (Detail ''No invoice data found. Run the scraper first or provide CSV data.''))"
  using assms by (simp add: load_request_def)

lemma load_request_invalid:
  assumes "truthy (csv_data request)"
    and "length (split_nl (strip (the (csv_data request)))) < 2"
  shows "load_request e request = Inl (HTTPException 400 (Detail ''Invalid CSV data format''))"
  using assms by (simp add: load_request_def Let_def)

lemma load_request_quoted:
  "load_request e \<lparr>query = q, csv_data = Some csv_quoted\<rparr> = Inr ([], csv_quoted)"
proof -
  have "csv_quoted \<noteq> []"
    by (simp add: csv_quoted_def)
  moreover have "strip csv_quoted = csv_quoted"
    by (simp add: string_defs csv_quoted_def nl_def)
  moreover have "split_nl csv_quoted = [[CHR 0x22, CHR ''a''], [CHR ''b'', CHR 0x22]]"
    by (simp add: csv_quoted_def nl_def)
  moreover have "reader_rows parse_reset [[CHR 0x22, CHR ''a''], [CHR ''b'', CHR 0x22]] =
      ([[''ab'']], None)"
    by (simp add: csv_defs)
  ultimately show ?thesis
    by (simp add: load_request_def truthy_def csv_defs)
qed

lemma heuristic_empty: "heuristic_analysis ''total revenue'' [] = Inl ZeroDivisionError"
  by (simp add: analysis_defs)

text \<open>
  C4 fails on the code: an empty record set is to be rejected before any aggregate is
  computed, and the path that reads \<open>invoices.csv\<close> does so (\<open>if not invoices\<close>). The
  inline path only checks for two lines: the two lines \<open>"a\<close> and \<open>b"\<close> are one quoted
  header field and no row, so the record set is empty, the heuristic analyzer runs on it
  and divides by the record count, and the request fails with status 500 around
  \<open>ZeroDivisionError\<close>, not with the not-found error.
\<close>

theorem empty_inline_dataset_divides_by_zero:
  "load_request env_no_keys \<lparr>query = ''total revenue'', csv_data = Some csv_quoted\<rparr> =
      Inr ([], csv_quoted) \<and>
   analyze_invoices_free env_no_keys state_init
       \<lparr>query = ''total revenue'', csv_data = Some csv_quoted\<rparr> =
     (Inl (HTTPException 500 (DetailOf ''Free analysis failed: '' ZeroDivisionError)),
      state_init\<lparr>model_loaded := True, heuristic_runs := 1\<rparr>)"
  by (simp add: analyze_invoices_free_def load_request_quoted Let_def state_init_def
      analyze_with_transformers_def get_transformer_model_def env_no_keys_def
      heuristic_empty)

text \<open>
  The other endpoint, on the same dataset: the provider is asked about an empty record
  set, and its answer is stored and returned with 0 records analyzed.
\<close>

lemma analyze_fallback_quoted:
  "analyze_invoices env_fallback state_init
       \<lparr>query = ''total revenue'', csv_data = Some csv_quoted\<rparr> =
     (Inr \<lparr>analysis = LLMText ''Two invoices, 150.00 in total.'', invoices_analyzed = 0,
           query_hash = take 8 (get_cache_key ''total revenue'' csv_quoted)\<rparr>,
      state_init\<lparr>cache := [get_cache_key ''total revenue'' csv_quoted \<mapsto>
           \<lparr>analysis = LLMText ''Two invoices, 150.00 in total.'', invoices_analyzed = 0,
            query_hash = take 8 (get_cache_key ''total revenue'' csv_quoted)\<rparr>],
        claude_calls := 1, openai_calls := 1\<rparr>)"
  by (simp add: analyze_invoices_def load_request_quoted Let_def call_llm_fallback state_init_sel)
    (simp add: state_init_def)

text \<open>
  What the two guards do reject: a request without inline dataset text whose persisted
  dataset yields no record fails on both endpoints with the 404 not-found error, before
  any aggregate is computed and before any provider is called (the state is unchanged);
  an inline dataset of fewer than two lines after stripping fails on both endpoints with
  the 400 error, before it is parsed; and on a record set that is not empty the analyzer
  never raises \<open>ZeroDivisionError\<close>.
\<close>

lemma empty_dataset_rejected:
  "(\<not> truthy (csv_data request) \<and> load_csv_data e = Inr [] \<longrightarrow>
      analyze_invoices e s request =
        (Inl (HTTPException 404
           (Detail ''No invoice data found. Run the scraper first or provide CSV data.'')), s) \<and>
      analyze_invoices_free e s request =
        (Inl (HTTPException 404
           (Detail ''No invoice data found. Run the scraper first or provide CSV data.'')), s)) \<and>
   (truthy (csv_data request) \<and> length (split_nl (strip (the (csv_data request)))) < 2 \<longrightarrow>
      analyze_invoices e s request =
        (Inl (HTTPException 400 (Detail ''Invalid CSV data format'')), s) \<and>
      analyze_invoices_free e s request =
        (Inl (HTTPException 400 (Detail ''Invalid CSV data format'')), s)) \<and>
   (invoices \<noteq> [] \<longrightarrow> heuristic_analysis q invoices \<noteq> Inl ZeroDivisionError)"
  using load_request_not_found [of request e] load_request_invalid [of request e]
    heuristic_analysis_no_zero_division [of invoices q]
  by (auto simp add: analyze_invoices_def analyze_invoices_free_def)

text \<open>
  No file and no inline text; an inline text of one line; the two records of the revenue
  scenario.
\<close>

lemma empty_dataset_rejected_example:
  "\<not> truthy (csv_data \<lparr>query = ''total revenue'', csv_data = None\<rparr>) \<and>
   load_csv_data env_no_keys = Inr [] \<and>
   analyze_invoices env_no_keys state_init \<lparr>query = ''total revenue'', csv_data = None\<rparr> =
     (Inl (HTTPException 404
        (Detail ''No invoice data found. Run the scraper first or provide CSV data.'')),
      state_init) \<and>
   analyze_invoices_free env_no_keys state_init \<lparr>query = ''total revenue'', csv_data = None\<rparr> =
     (Inl (HTTPException 404
        (Detail ''No invoice data found. Run the scraper first or provide CSV data.'')),
      state_init) \<and>
   truthy (csv_data \<lparr>query = ''total revenue'', csv_data = Some ''invoice_id,customer''\<rparr>) \<and>
   length (split_nl (strip ''invoice_id,customer'')) < 2 \<and>
   analyze_invoices env_no_keys state_init
       \<lparr>query = ''total revenue'', csv_data = Some ''invoice_id,customer''\<rparr> =
     (Inl (HTTPException 400 (Detail ''Invalid CSV data format'')), state_init) \<and>
   analyze_invoices_free env_no_keys state_init
       \<lparr>query = ''total revenue'', csv_data = Some ''invoice_id,customer''\<rparr> =
     (Inl (HTTPException 400 (Detail ''Invalid CSV data format'')), state_init) \<and>
   invoices_two \<noteq> [] \<and>
   heuristic_analysis ''total revenue'' invoices_two \<noteq> Inl ZeroDivisionError"
  using empty_dataset_rejected [of "\<lparr>query = ''total revenue'', csv_data = None\<rparr>"
      env_no_keys state_init invoices_two "''total revenue''"]
    empty_dataset_rejected [of
      "\<lparr>query = ''total revenue'', csv_data = Some ''invoice_id,customer''\<rparr>"
      env_no_keys state_init invoices_two "''total revenue''"]
  by (simp add: truthy_def load_csv_data_def env_no_keys_def string_defs
      invoices_two_def)

section \<open>The classification of a query\<close>

lemma is_prefix_take: "is_prefix w s \<longleftrightarrow> length w \<le> length s \<and> take (length w) s = w"
  by (induction w s rule: is_prefix.induct) auto

lemma contains_position:
  "contains w s \<longleftrightarrow> (\<exists>i. i + length w \<le> length s \<and> take (length w) (drop i s) = w)"
proof (induction s)
  case Nil
  then show ?case by auto
next
  case (Cons b s)
  show ?case
  proof
    assume "contains w (b # s)"
    then consider "is_prefix w (b # s)" | "contains w s" by auto
    then show "\<exists>i. i + length w \<le> length (b # s) \<and> take (length w) (drop i (b # s)) = w"
    proof cases
      case 1
      then have "0 + length w \<le> length (b # s) \<and> take (length w) (drop 0 (b # s)) = w"
        by (simp add: is_prefix_take)
      then show ?thesis by blast
    next
      case 2
      with Cons.IH obtain i where "i + length w \<le> length s" "take (length w) (drop i s) = w"
        by blast
      then have "Suc i + length w \<le> length (b # s) \<and>
          take (length w) (drop (Suc i) (b # s)) = w"
        by simp
      then show ?thesis by blast
    qed
  next
    assume "\<exists>i. i + length w \<le> length (b # s) \<and> take (length w) (drop i (b # s)) = w"
    then obtain i where i: "i + length w \<le> length (b # s)"
      "take (length w) (drop i (b # s)) = w" by blast
    show "contains w (b # s)"
    proof (cases i)
      case 0
      with i have "is_prefix w (b # s)"
        by (simp add: is_prefix_take)
      then show ?thesis by simp
    next
      case (Suc j)
      with i have "j + length w \<le> length s \<and> take (length w) (drop j s) = w"
        by simp
      with Cons.IH have "contains w s" by blast
      then show ?thesis by simp
    qed
  qed
qed

lemma occurs_ci_position:
  "occurs_ci keyword q \<longleftrightarrow>
     (\<exists>i. i + length keyword \<le> length q \<and>
          map lower_char (take (length keyword) (drop i q)) = map lower_char keyword)"
proof
  assume "occurs_ci keyword q"
  then show "\<exists>i. i + length keyword \<le> length q \<and>
      map lower_char (take (length keyword) (drop i q)) = map lower_char keyword"
    unfolding occurs_ci_def list_ex_iff by blast
next
  assume "\<exists>i. i + length keyword \<le> length q \<and>
      map lower_char (take (length keyword) (drop i q)) = map lower_char keyword"
  then obtain i where i: "i + length keyword \<le> length q"
    "map lower_char (take (length keyword) (drop i q)) = map lower_char keyword"
    by blast
  from i(1) have "i < Suc (length q)"
    by arith
  then have "i \<in> set [0..<Suc (length q)]"
    by (simp del: upt_Suc)
  with i show "occurs_ci keyword q"
    unfolding occurs_ci_def list_ex_iff by blast
qed

lemma occurs_ci_contains:
  assumes "map lower_char keyword = keyword"
  shows "occurs_ci keyword q \<longleftrightarrow> contains keyword (lower q)"
  by (simp add: occurs_ci_position assms contains_position lower_def take_map drop_map)

lemma keyword_occurs:
  "occurs_ci ''revenue'' q = contains ''revenue'' (lower q)"
  "occurs_ci ''total'' q = contains ''total'' (lower q)"
  "occurs_ci ''amount'' q = contains ''amount'' (lower q)"
  "occurs_ci ''sum'' q = contains ''sum'' (lower q)"
  "occurs_ci ''customer'' q = contains ''customer'' (lower q)"
  "occurs_ci ''client'' q = contains ''client'' (lower q)"
  "occurs_ci ''who'' q = contains ''who'' (lower q)"
  "occurs_ci ''status'' q = contains ''status'' (lower q)"
  "occurs_ci ''paid'' q = contains ''paid'' (lower q)"
  "occurs_ci ''payment'' q = contains ''payment'' (lower q)"
  "occurs_ci ''count'' q = contains ''count'' (lower q)"
  "occurs_ci ''how many'' q = contains ''how many'' (lower q)"
  "occurs_ci ''number'' q = contains ''number'' (lower q)"
  by (rule occurs_ci_contains, simp add: lower_char_def)+

lemma keyword_matches:
  "list_ex (\<lambda>keyword. occurs_ci keyword q) [''revenue'', ''total'', ''amount'', ''sum''] =
     any_word [''total'', ''revenue'', ''amount'', ''sum''] (lower q)"
  "list_ex (\<lambda>keyword. occurs_ci keyword q) [''customer'', ''client'', ''who''] =
     any_word [''customer'', ''client'', ''who''] (lower q)"
  "list_ex (\<lambda>keyword. occurs_ci keyword q) [''status'', ''paid'', ''payment''] =
     any_word [''status'', ''paid'', ''payment''] (lower q)"
  "list_ex (\<lambda>keyword. occurs_ci keyword q) [''count'', ''how many'', ''number''] =
     any_word [''count'', ''how many'', ''number''] (lower q)"
  by (auto simp add: any_word_def keyword_occurs)

lemma spec_classify_code:
  "spec_classify q =
     (if any_word [''total'', ''revenue'', ''amount'', ''sum''] (lower q) then RevenueSummary
      else if any_word [''customer'', ''client'', ''who''] (lower q) then CustomerRanking
      else if any_word [''status'', ''paid'', ''payment''] (lower q) then StatusSummary
      else if any_word [''count'', ''how many'', ''number''] (lower q) then CountSummary
      else GeneralOverview)"
  unfolding spec_classify_def category_keywords_def find.simps case_prod_conv keyword_matches
  by simp

lemma heuristic_analysis_category:
  assumes "heuristic_analysis q invoices = Inr r"
  shows "template_category r = Some (spec_classify q)"
proof (cases "sum_amounts 0 invoices")
  case (Inl err)
  with assms show ?thesis
    by (simp add: heuristic_analysis_def)
next
  case (Inr t)
  show ?thesis
  proof (cases "any_word [''total'', ''revenue'', ''amount'', ''sum''] (lower q)")
    case True
    with assms Inr show ?thesis
      by (simp add: heuristic_analysis_def Let_def spec_classify_code split: sum.splits)
        auto
  next
    case n1: False
    show ?thesis
    proof (cases "any_word [''customer'', ''client'', ''who''] (lower q)")
      case True
      with assms Inr n1 show ?thesis
        by (simp add: heuristic_analysis_def Let_def spec_classify_code split: sum.splits)
          auto
    next
      case n2: False
      show ?thesis
      proof (cases "any_word [''status'', ''paid'', ''payment''] (lower q)")
        case True
        with assms Inr n1 n2 show ?thesis
          by (simp add: heuristic_analysis_def Let_def spec_classify_code split: sum.splits)
            auto
      next
        case n3: False
        show ?thesis
        proof (cases "any_word [''count'', ''how many'', ''number''] (lower q)")
          case True
          with assms Inr n1 n2 n3 show ?thesis
            by (simp add: heuristic_analysis_def Let_def spec_classify_code split: sum.splits)
              auto
        next
          case False
          with assms Inr n1 n2 n3 show ?thesis
            by (simp add: heuristic_analysis_def Let_def spec_classify_code split: sum.splits)
              auto
        qed
      qed
    qed
  qed
qed

lemma chars_eq_Nil: "chars s = [] \<longleftrightarrow> s = []"
  by (cases s) simp_all

lemma those_map_Some:
  "list_all (\<lambda>x. f x \<noteq> None) xs \<Longrightarrow> those (map f xs) = Some (map (\<lambda>x. the (f x)) xs)"
  by (induction xs) auto

lemma float_parses:
  assumes "amount_guard a"
    and "length (filter (\<lambda>c. c = CHR ''.'') a) \<le> 1"
    and "list_all (\<lambda>g. decimal g \<noteq> None) (chars (replace_dot a))"
  shows "\<exists>x. float a = Inr x"
proof -
  from assms(1) have "chars (replace_dot a) \<noteq> []"
    by (simp add: amount_guard_def isdigit_def chars_eq_Nil)
  then obtain g gs where "chars (replace_dot a) = g # gs"
    by (cases "chars (replace_dot a)") simp_all
  with assms(3) have "those (map decimal (chars (replace_dot a))) =
      Some (the (decimal g) # map (\<lambda>x. the (decimal x)) gs)"
    using those_map_Some [of decimal "chars (replace_dot a)"] by simp
  with assms(2) show ?thesis
    by (simp add: float_def)
qed

lemma sum_amounts_parses: "amounts_parse invoices \<Longrightarrow> \<exists>t. sum_amounts acc invoices = Inr t"
proof (induction invoices arbitrary: acc)
  case Nil
  then show ?case by simp
next
  case (Cons invoice invoices)
  from Cons.prems have rest: "amounts_parse invoices"
    by (simp add: amounts_parse_def)
  show ?case
  proof (cases "amount_guard (amount invoice)")
    case True
    with Cons.prems obtain x where "float (amount invoice) = Inr x"
      using float_parses [of "amount invoice"] by (auto simp add: amounts_parse_def)
    with True Cons.IH [OF rest] show ?thesis
      by simp
  next
    case False
    with Cons.IH [OF rest] show ?thesis
      by simp
  qed
qed

lemma top_customers_loop_parses:
  "amounts_parse invoices \<Longrightarrow> \<exists>t. top_customers_loop d invoices = Inr t"
proof (induction invoices arbitrary: d)
  case Nil
  then show ?case by simp
next
  case (Cons invoice invoices)
  from Cons.prems have rest: "amounts_parse invoices"
    by (simp add: amounts_parse_def)
  show ?case
  proof (cases "amount_guard (amount invoice)")
    case True
    with Cons.prems obtain x where "float (amount invoice) = Inr x"
      using float_parses [of "amount invoice"] by (auto simp add: amounts_parse_def)
    with True Cons.IH [OF rest] show ?thesis
      by (simp add: Let_def)
  next
    case False
    with Cons.IH [OF rest] show ?thesis
      by (simp add: Let_def)
  qed
qed

lemma heuristic_analysis_returns:
  assumes "invoices \<noteq> []" and "amounts_parse invoices"
  shows "\<exists>r. heuristic_analysis q invoices = Inr r"
proof -
  from assms(1) have n: "length invoices \<noteq> 0" "length (remdups (map customer invoices)) \<noteq> 0"
    by simp_all
  from assms(2) obtain t where t: "sum_amounts 0 invoices = Inr t"
    using sum_amounts_parses by blast
  from assms(2) obtain d where d: "top_customers_loop [] invoices = Inr d"
    using top_customers_loop_parses by blast
  show ?thesis
    using n t d by (simp add: heuristic_analysis_def Let_def true_div_def int_true_div_def)
qed

lemma heuristic_two_examples:
  "heuristic_analysis ''What is the total revenue?'' invoices_two =
     Inr (TotalRevenueAnalysis 2 150 1 1 75)"
  "heuristic_analysis ''Who are my customers?'' invoices_two =
     Inr (CustomerAnalysis 2 [(''A'', 100), (''B'', 50)])"
  "heuristic_analysis ''Show payment status'' invoices_two =
     Inr (PaymentStatusAnalysis 1 1 100 150)"
  "heuristic_analysis ''hello'' invoices_two = Inr (InvoiceOverview 2 150 2 1 1 75)"
  by (simp_all add: analysis_defs invoices_two_def)

lemma analyze_with_transformers_fresh:
  "analyze_with_transformers env_no_keys state_init q invoices =
     (heuristic_analysis q invoices, state_init\<lparr>model_loaded := True, heuristic_runs := 1\<rparr>)"
  by (simp add: analyze_with_transformers_def get_transformer_model_def env_no_keys_def
      state_init_def)

text \<open>
  C6: the heuristic analyzer returns on every record set that is not empty and whose
  amounts parse (every amount that passes the guard has at most one dot and no digit
  that is not a decimal digit), and whenever it returns, the template of its answer is
  the one of the category that the specification's classification gives the query:
  case-insensitive substring matching against the keyword sets, in the priority order
  revenue, customer, status, count, and the general overview when nothing matches.
\<close>

theorem query_classification:
  "(TRANSFORMERS_AVAILABLE e \<and> (model_loaded s \<or> SentenceTransformer e) \<and>
    invoices \<noteq> [] \<and> amounts_parse invoices \<longrightarrow>
      (\<exists>r s'. analyze_with_transformers e s q invoices = (Inr r, s'))) \<and>
   (analyze_with_transformers e s q invoices = (Inr r, s') \<longrightarrow>
      template_category r = Some (spec_classify q))"
proof (intro conjI impI)
  assume h: "TRANSFORMERS_AVAILABLE e \<and> (model_loaded s \<or> SentenceTransformer e) \<and>
    invoices \<noteq> [] \<and> amounts_parse invoices"
  then obtain r where "heuristic_analysis q invoices = Inr r"
    using heuristic_analysis_returns by blast
  with h show "\<exists>r s'. analyze_with_transformers e s q invoices = (Inr r, s')"
    by (auto simp add: analyze_with_transformers_def get_transformer_model_def Let_def)
next
  assume "analyze_with_transformers e s q invoices = (Inr r, s')"
  then have "heuristic_analysis q invoices = Inr r"
    by (auto simp add: analyze_with_transformers_def get_transformer_model_def Let_def
        split: if_splits)
  then show "template_category r = Some (spec_classify q)"
    by (rule heuristic_analysis_category)
qed

text \<open>
  The four queries of the claim, on the two records of the revenue scenario.
\<close>

theorem query_classification_witness:
  "TRANSFORMERS_AVAILABLE env_no_keys \<and> SentenceTransformer env_no_keys \<and>
   invoices_two \<noteq> [] \<and> amounts_parse invoices_two \<and>
   fst (analyze_with_transformers env_no_keys state_init ''What is the total revenue?''
          invoices_two) = Inr (TotalRevenueAnalysis 2 150 1 1 75) \<and>
   spec_classify ''What is the total revenue?'' = RevenueSummary \<and>
   fst (analyze_with_transformers env_no_keys state_init ''Who are my customers?''
          invoices_two) = Inr (CustomerAnalysis 2 [(''A'', 100), (''B'', 50)]) \<and>
   spec_classify ''Who are my customers?'' = CustomerRanking \<and>
   fst (analyze_with_transformers env_no_keys state_init ''Show payment status''
          invoices_two) = Inr (PaymentStatusAnalysis 1 1 100 150) \<and>
   spec_classify ''Show payment status'' = StatusSummary \<and>
   fst (analyze_with_transformers env_no_keys state_init ''hello'' invoices_two) =
     Inr (InvoiceOverview 2 150 2 1 1 75) \<and>
   spec_classify ''hello'' = GeneralOverview"
proof -
  have h: "TRANSFORMERS_AVAILABLE env_no_keys" "SentenceTransformer env_no_keys"
    "invoices_two \<noteq> []" "amounts_parse invoices_two"
    by (simp_all add: env_no_keys_def invoices_two_def amounts_parse_def amount_defs)
  note c = query_classification [of env_no_keys state_init invoices_two _ _
      "state_init\<lparr>model_loaded := True, heuristic_runs := 1\<rparr>"]
  have "spec_classify ''What is the total revenue?'' = RevenueSummary"
    using c [of "''What is the total revenue?''" "TotalRevenueAnalysis 2 150 1 1 75"]
    by (simp add: analyze_with_transformers_fresh heuristic_two_examples)
  moreover have "spec_classify ''Who are my customers?'' = CustomerRanking"
    using c [of "''Who are my customers?''" "CustomerAnalysis 2 [(''A'', 100), (''B'', 50)]"]
    by (simp add: analyze_with_transformers_fresh heuristic_two_examples)
  moreover have "spec_classify ''Show payment status'' = StatusSummary"
    using c [of "''Show payment status''" "PaymentStatusAnalysis 1 1 100 150"]
    by (simp add: analyze_with_transformers_fresh heuristic_two_examples)
  moreover have "spec_classify ''hello'' = GeneralOverview"
    using c [of "''hello''" "InvoiceOverview 2 150 2 1 1 75"]
    by (simp add: analyze_with_transformers_fresh heuristic_two_examples)
  ultimately show ?thesis
    using h by (simp add: analyze_with_transformers_fresh heuristic_two_examples)
qed

section \<open>Sums and ranking when every amount parses\<close>

text \<open>
  When every amount that passes the guard parses, the total is the sum of the values of
  the records that pass the guard, added from the left with a rounding after each
  addition (a record that fails the guard adds nothing and is still counted), the
  customer loop builds \<open>customer_sums\<close>, and the ranking is its first five items in
  descending order of the sum, equal sums in the order of first occurrence.
\<close>

lemma float_contribution:
  assumes "amount_guard (amount invoice)" and "float (amount invoice) = Inr x"
  shows "contribution invoice = x"
  using assms by (simp add: contribution_def)

lemma amounts_parse_float:
  assumes "amounts_parse (invoice # invoices)" and "amount_guard (amount invoice)"
  shows "float (amount invoice) = Inr (contribution invoice)"
proof -
  from assms obtain x where "float (amount invoice) = Inr x"
    using float_parses [of "amount invoice"] by (auto simp add: amounts_parse_def)
  with assms(2) show ?thesis
    by (simp add: contribution_def)
qed

lemma parsed_Cons:
  "parsed (invoice # invoices) =
     (if amount_guard (amount invoice) then contribution invoice # parsed invoices
      else parsed invoices)"
  by (simp add: parsed_def)

lemma sum_amounts_contributions:
  "amounts_parse invoices \<Longrightarrow>
   sum_amounts acc invoices = Inr (float_sum acc (parsed invoices))"
proof (induction invoices arbitrary: acc)
  case Nil
  then show ?case by (simp add: parsed_def float_sum_def)
next
  case (Cons invoice invoices)
  from Cons.prems have rest: "amounts_parse invoices"
    by (simp add: amounts_parse_def)
  show ?case
  proof (cases "amount_guard (amount invoice)")
    case True
    with Cons.prems have "float (amount invoice) = Inr (contribution invoice)"
      by (rule amounts_parse_float)
    with True Cons.IH [OF rest] show ?thesis
      by (simp add: parsed_Cons float_sum_def)
  next
    case False
    with Cons.IH [OF rest] show ?thesis
      by (simp add: parsed_Cons)
  qed
qed

lemma dict_add_absent: "k \<notin> fst ` set d \<Longrightarrow> dict_add d k x = d"
  by (induction d) (auto simp add: dict_add_def)

lemma map_of_None_iff: "map_of d k = None \<longleftrightarrow> k \<notin> fst ` set d"
  by (simp add: map_of_eq_None_iff)

lemma records_of_Cons:
  "records_of c (invoice # invoices) =
     (if customer invoice = c then invoice # records_of c invoices else records_of c invoices)"
  by (simp add: records_of_def)

lemma sum_of_other:
  "customer invoice \<noteq> c \<Longrightarrow> sum_of c (invoice # invoices) = sum_of c invoices"
  by (simp add: sum_of_def records_of_Cons)

text \<open>
  One turn of the loop, as a function of the dictionary: the customer of the record is
  entered with 0 if it is new, and the value of the record is added if the record passes
  the guard.
\<close>

lemma grown_step_present:
  assumes "customer invoice \<in> fst ` set d"
  shows "grown (if amount_guard (amount invoice)
                then dict_add d (customer invoice) (contribution invoice) else d) invoices =
         grown d (invoice # invoices)"
proof -
  let ?c0 = "customer invoice"
  let ?d1 = "if amount_guard (amount invoice)
      then dict_add d (customer invoice) (contribution invoice) else d"
  have keys: "fst ` set ?d1 = fst ` set d"
    by (force simp add: dict_add_def)
  have a: "map (\<lambda>(c, v). (c, float_sum v (parsed (records_of c invoices)))) ?d1 =
      map (\<lambda>(c, v). (c, float_sum v (parsed (records_of c (invoice # invoices))))) d"
    by (auto simp add: dict_add_def records_of_Cons parsed_Cons float_sum_def)
  have b: "map (\<lambda>c. (c, sum_of c invoices))
        (filter (\<lambda>c. c \<notin> fst ` set d) (first_seen (map customer invoices))) =
      map (\<lambda>c. (c, sum_of c (invoice # invoices)))
        (filter (\<lambda>c. c \<notin> fst ` set d) (first_seen (map customer (invoice # invoices))))"
  proof -
    have "filter (\<lambda>c. c \<notin> fst ` set d) (first_seen (map customer (invoice # invoices))) =
        filter (\<lambda>c. c \<notin> fst ` set d) (first_seen (map customer invoices))"
      using assms by (auto intro: filter_cong)
    moreover have "map (\<lambda>c. (c, sum_of c (invoice # invoices)))
          (filter (\<lambda>c. c \<notin> fst ` set d) (first_seen (map customer invoices))) =
        map (\<lambda>c. (c, sum_of c invoices))
          (filter (\<lambda>c. c \<notin> fst ` set d) (first_seen (map customer invoices)))"
      using assms by (auto simp add: sum_of_def records_of_Cons)
    ultimately show ?thesis by simp
  qed
  show ?thesis
    unfolding grown_def keys a b ..
qed

lemma grown_step_absent:
  assumes "customer invoice \<notin> fst ` set d"
  shows "grown (if amount_guard (amount invoice)
                then dict_add (d @ [(customer invoice, 0)]) (customer invoice)
                       (contribution invoice)
                else d @ [(customer invoice, 0)]) invoices =
         grown d (invoice # invoices)"
proof -
  let ?c0 = "customer invoice"
  let ?v = "float_sum 0 (parsed [invoice])"
  have d1: "(if amount_guard (amount invoice)
        then dict_add (d @ [(?c0, 0)]) ?c0 (contribution invoice)
        else d @ [(?c0, 0)]) = d @ [(?c0, ?v)]"
    using assms dict_add_absent [of ?c0 d "contribution invoice"]
    by (simp add: dict_add_def parsed_Cons float_sum_def) (simp add: parsed_def)
  have other: "c \<noteq> ?c0" if "(c, v) \<in> set d" for c v
    using that assms by force
  have a: "map (\<lambda>(c, v). (c, float_sum v (parsed (records_of c invoices)))) d =
      map (\<lambda>(c, v). (c, float_sum v (parsed (records_of c (invoice # invoices))))) d"
  proof (rule map_cong [OF refl])
    fix p assume "p \<in> set d"
    then have "fst p \<noteq> ?c0"
      using other [of "fst p" "snd p"] by simp
    then show "(case p of (c, v) \<Rightarrow> (c, float_sum v (parsed (records_of c invoices)))) =
        (case p of (c, v) \<Rightarrow> (c, float_sum v (parsed (records_of c (invoice # invoices)))))"
      by (cases p) (simp add: records_of_Cons)
  qed
  have v: "float_sum ?v (parsed (records_of ?c0 invoices)) = sum_of ?c0 (invoice # invoices)"
    by (simp add: sum_of_def records_of_Cons parsed_Cons float_sum_def) (simp add: parsed_def)
  have b: "filter (\<lambda>c. c \<notin> fst ` set (d @ [(?c0, ?v)]))
        (first_seen (map customer invoices)) =
      filter (\<lambda>c. c \<notin> fst ` set d) (filter (\<lambda>c'. c' \<noteq> ?c0) (first_seen (map customer invoices)))"
    by (auto intro: filter_cong)
  have c: "map (\<lambda>c. (c, sum_of c invoices))
        (filter (\<lambda>c. c \<notin> fst ` set d)
           (filter (\<lambda>c'. c' \<noteq> ?c0) (first_seen (map customer invoices)))) =
      map (\<lambda>c. (c, sum_of c (invoice # invoices)))
        (filter (\<lambda>c. c \<notin> fst ` set d)
           (filter (\<lambda>c'. c' \<noteq> ?c0) (first_seen (map customer invoices))))"
    by (auto simp add: sum_of_def records_of_Cons)
  show ?thesis
    unfolding d1 grown_def using assms
    by (auto simp add: a b v sum_of_other)
qed

lemma top_customers_loop_grown:
  "amounts_parse invoices \<Longrightarrow> top_customers_loop d invoices = Inr (grown d invoices)"
proof (induction invoices arbitrary: d)
  case Nil
  then show ?case by (simp add: grown_def records_of_def parsed_def float_sum_def)
next
  case (Cons invoice invoices)
  from Cons.prems have rest: "amounts_parse invoices"
    by (simp add: amounts_parse_def)
  let ?d0 = "if map_of d (customer invoice) = None then d @ [(customer invoice, 0)] else d"
  let ?d1 = "if amount_guard (amount invoice)
      then dict_add ?d0 (customer invoice) (contribution invoice) else ?d0"
  have step: "top_customers_loop d (invoice # invoices) = top_customers_loop ?d1 invoices"
  proof (cases "amount_guard (amount invoice)")
    case True
    with Cons.prems have "float (amount invoice) = Inr (contribution invoice)"
      by (rule amounts_parse_float)
    with True show ?thesis
      by (simp add: Let_def)
  next
    case False
    then show ?thesis
      by (simp add: Let_def)
  qed
  have "grown ?d1 invoices = grown d (invoice # invoices)"
  proof (cases "customer invoice \<in> fst ` set d")
    case True
    then have "?d0 = d"
      by (simp add: map_of_None_iff)
    with grown_step_present [OF True, of invoices] show ?thesis
      by (simp only:)
  next
    case False
    then have "?d0 = d @ [(customer invoice, 0)]"
      by (simp add: map_of_None_iff)
    with grown_step_absent [OF False, of invoices] show ?thesis
      by (simp only:)
  qed
  with step Cons.IH [OF rest] show ?case
    by simp
qed

lemma top_customers_loop_sums:
  "amounts_parse invoices \<Longrightarrow> top_customers_loop [] invoices = Inr (customer_sums invoices)"
  using top_customers_loop_grown [of invoices "[]"]
  by (simp add: grown_def customer_sums_def)

lemma sorted_reverse_set: "set (sorted_reverse key xs) = set xs"
  by (simp add: sorted_reverse_def)

lemma sorted_reverse_length: "length (sorted_reverse key xs) = length xs"
  by (simp add: sorted_reverse_def)

lemma sorted_reverse_descending:
  "sorted_wrt (\<lambda>a b. key a \<ge> key b) (sorted_reverse key xs)"
proof -
  have "sorted (map key (sort_key key (rev xs)))"
    by simp
  then have "sorted_wrt (\<lambda>a b. key a \<le> key b) (sort_key key (rev xs))"
    by (simp add: sorted_map)
  then show ?thesis
    by (simp add: sorted_reverse_def sorted_wrt_rev)
qed

lemma sorted_reverse_stable:
  "filter (\<lambda>x. key x = v) (sorted_reverse key xs) = filter (\<lambda>x. key x = v) xs"
proof -
  have "filter (\<lambda>x. key x = v) (sort_key key (rev xs)) = filter (\<lambda>x. key x = v) (rev xs)"
    by (rule sort_key_stable)
  then have "rev (filter (\<lambda>x. key x = v) (sort_key key (rev xs))) =
      rev (filter (\<lambda>x. key x = v) (rev xs))"
    by simp
  then show ?thesis
    by (simp add: sorted_reverse_def rev_filter)
qed


lemma revenue_counts_and_sums:
  assumes "amounts_parse invoices"
    and "heuristic_analysis q invoices = Inr (TotalRevenueAnalysis n t p pp a)"
  shows "n = length invoices \<and> t = float_sum 0 (parsed invoices)"
  using assms sum_amounts_contributions [of invoices 0]
  by (simp add: heuristic_analysis_def Let_def split: if_splits sum.splits)

lemma customer_ranking:
  assumes "amounts_parse invoices"
    and "heuristic_analysis q invoices = Inr (CustomerAnalysis n ranked)"
  shows "ranked = take 5 (sorted_reverse snd (customer_sums invoices)) \<and>
         length ranked \<le> 5 \<and>
         sorted_wrt (\<lambda>a b. snd a \<ge> snd b) ranked"
proof -
  from assms have r: "ranked = take 5 (sorted_reverse snd (customer_sums invoices))"
    using sum_amounts_contributions [of invoices 0] top_customers_loop_sums [of invoices]
    by (simp add: heuristic_analysis_def Let_def split: if_splits sum.splits)
  have "sorted_wrt (\<lambda>a b. snd a \<ge> snd b) (sorted_reverse snd (customer_sums invoices))"
    by (rule sorted_reverse_descending)
  then have "sorted_wrt (\<lambda>a b. snd a \<ge> snd b) ranked"
    unfolding r by (rule sorted_wrt_take)
  with r show ?thesis
    by simp
qed

lemma customer_sums_order:
  "map fst (customer_sums invoices) = first_seen (map customer invoices)"
  by (simp add: customer_sums_def comp_def)

section \<open>Text outside ASCII\<close>

text \<open>
  \<open>strip\<close> removes the no-break space, so a dataset whose second line holds nothing else
  has one line and is refused. The superscript two is a digit for \<open>isdigit\<close> and no
  decimal digit for \<open>float\<close>. The Arabic-Indic digits are decimal digits: the amount
  \<open>12.5\<close> written with them parses.
\<close>

lemma strip_no_break_space: "strip csv_no_break_space = ''invoice_id''"
  by (simp add: string_defs csv_no_break_space_def nl_def)

lemma load_request_no_break_space:
  "load_request e \<lparr>query = q, csv_data = Some csv_no_break_space\<rparr> =
     Inl (HTTPException 400 (Detail ''Invalid CSV data format''))"
  by (simp add: load_request_def truthy_def strip_no_break_space)
    (simp add: csv_no_break_space_def)

lemma superscript_two:
  "amount_guard [CHR 0xC2, CHR 0xB2] \<and>
   float [CHR 0xC2, CHR 0xB2] = Inl (ValueError [CHR 0xC2, CHR 0xB2])"
  by (simp add: amount_defs other_digits_def)

lemma arabic_indic_digits:
  "amount_guard [CHR 0xD9, CHR 0xA1, CHR 0xD9, CHR 0xA2, CHR ''.'', CHR 0xD9, CHR 0xA5] \<and>
   float [CHR 0xD9, CHR 0xA1, CHR 0xD9, CHR 0xA2, CHR ''.'', CHR 0xD9, CHR 0xA5] = Inr (25 / 2)"
  by (simp add: amount_defs double_defs)

section \<open>Amounts and sums that are rounded\<close>

text \<open>
  The amounts \<open>0.1\<close>, \<open>0.2\<close> and \<open>0.3\<close> are no doubles, and the sum of the first two is
  rounded to the double above the third. So customer A, with 0.1 and 0.2, is ranked
  before customer B, with 0.3, although B occurs first and the decimal sums are equal. An
  integer of 54 bits is rounded to 53 bits.
\<close>

lemma float_tenths:
  "float ''0.1'' = Inr (3602879701896397 / 36028797018963968)"
  "float ''0.2'' = Inr (3602879701896397 / 18014398509481984)"
  "float ''0.3'' = Inr (5404319552844595 / 18014398509481984)"
  by (simp_all add: amount_defs double_defs)

lemma float_add_tenths:
  "float_add (3602879701896397 / 36028797018963968) (3602879701896397 / 18014398509481984) =
     1351079888211149 / 4503599627370496"
  by (simp add: float_add_def double_defs)

lemma float_rounds: "float ''9007199254740993'' = Inr 9007199254740992"
  by (simp add: amount_defs double_defs)

lemma top_customers_tenths:
  "top_customers_loop [] invoices_tenths =
     Inr [(''B'', 5404319552844595 / 18014398509481984),
          (''A'', 1351079888211149 / 4503599627370496)]"
proof -
  have g: "amount_guard ''0.3''" "amount_guard ''0.1''" "amount_guard ''0.2''"
    by (simp_all add: amount_defs)
  have z: "float_add 0 (5404319552844595 / 18014398509481984) =
      5404319552844595 / 18014398509481984"
    "float_add 0 (3602879701896397 / 36028797018963968) =
      3602879701896397 / 36028797018963968"
    by (simp_all add: float_add_def double_defs)
  show ?thesis
    by (simp add: invoices_tenths_def g float_tenths dict_add_def z float_add_tenths)
qed

lemma ranking_tenths:
  "take 5 (sorted_reverse snd
     [(''B'', 5404319552844595 / 18014398509481984 :: rat),
      (''A'', 1351079888211149 / 4503599627370496)]) =
   [(''A'', 1351079888211149 / 4503599627370496),
    (''B'', 5404319552844595 / 18014398509481984)]"
  by (simp add: sorted_reverse_def)

lemma heuristic_tenths:
  "heuristic_analysis ''Who are my customers?'' invoices_tenths =
     Inr (CustomerAnalysis 2
       [(''A'', 1351079888211149 / 4503599627370496),
        (''B'', 5404319552844595 / 18014398509481984)])"
proof -
  have "amounts_parse invoices_tenths"
    by (simp add: amounts_parse_def invoices_tenths_def amount_defs)
  then obtain t where t: "sum_amounts 0 invoices_tenths = Inr t"
    using sum_amounts_parses by blast
  have w: "\<not> any_word [''total'', ''revenue'', ''amount'', ''sum'']
        (lower ''Who are my customers?'')"
    "any_word [''customer'', ''client'', ''who''] (lower ''Who are my customers?'')"
    by (simp_all add: any_word_def lower_def lower_char_def)
  have c: "length (remdups (map customer invoices_tenths)) = 2"
    by (simp add: invoices_tenths_def)
  show ?thesis
    by (simp add: heuristic_analysis_def Let_def t w c top_customers_tenths ranking_tenths)
qed

section \<open>Amounts that the guard lets through and \<open>float\<close> rejects\<close>

text \<open>
  C5 fails on the code: the guard removes every dot before it tests for digits, so the
  amount \<open>1.2.3\<close> passes it, and \<open>float\<close> then raises \<open>ValueError\<close>. The record does not
  contribute 0: the sum, the analysis and the request fail. An amount with a digit that
  is no decimal digit does the same (\<open>superscript_two\<close>). On record sets without such
  amounts the total is the sum, in double arithmetic, of the amounts that pass the guard
  (\<open>sum_amounts_contributions\<close>, \<open>revenue_counts_and_sums\<close>).
\<close>

theorem malformed_amount_raises:
  "amount_guard ''1.2.3'' \<and> float ''1.2.3'' = Inl (ValueError ''1.2.3'') \<and>
   sum_amounts 0 invoices_dots = Inl (ValueError ''1.2.3'') \<and>
   heuristic_analysis ''total revenue'' invoices_dots = Inl (ValueError ''1.2.3'') \<and>
   analyze_invoices_free env_no_keys state_init
       \<lparr>query = ''total revenue'', csv_data = Some csv_dots\<rparr> =
     (Inl (HTTPException 500 (DetailOf ''Free analysis failed: '' (ValueError ''1.2.3''))),
      state_init\<lparr>model_loaded := True, heuristic_runs := 1\<rparr>)"
  by (simp add: analyze_free_dots heuristic_dots)
    (simp add: amount_defs invoices_dots_def)

text \<open>
  C7 fails on the code by the same slip: the loop of the customer branch has the same
  guard before the same \<open>float\<close>, and the ranking is never produced for a record set with
  the amount \<open>1.2.3\<close>. On record sets without such an amount the ranking is by the sums
  in double arithmetic, equal sums in the order of first occurrence (\<open>customer_ranking\<close>,
  \<open>sorted_reverse_stable\<close>, \<open>customer_sums_order\<close>); decimal sums that are equal can be
  doubles that differ (\<open>heuristic_tenths\<close>).
\<close>

theorem customer_ranking_raises:
  "top_customers_loop [] invoices_dots = Inl (ValueError ''1.2.3'') \<and>
   heuristic_analysis ''Who are my customers?'' invoices_dots = Inl (ValueError ''1.2.3'') \<and>
   fst (analyze_invoices_free env_no_keys state_init
       \<lparr>query = ''Who are my customers?'', csv_data = Some csv_dots\<rparr>) =
     Inl (HTTPException 500 (DetailOf ''Free analysis failed: '' (ValueError ''1.2.3'')))"
  by (simp add: heuristic_dots analyze_invoices_free_def load_request_dots Let_def
      state_init_sel analyze_with_transformers_fresh)
    (simp add: amount_defs invoices_dots_def)

end
